theory Spec2Isabelle
  imports Complex_Main
begin

section \<open>AIS target prioritizer: data model\<close>

text \<open>
  The calculation core of the plugin lives in \<^verbatim>\<open>ais-utils.mjs\<close> with its constants in
  \<^verbatim>\<open>shared/constants.mjs\<close>. A JavaScript number is a \<open>jsnum\<close>: a finite value, one of the
  two infinities, or \<open>NaN\<close>. A finite value is an exact real: rounding to the nearest
  double is not modelled, overflow is (an operation whose exact result reaches \<open>2^1024\<close>
  in magnitude gives an infinity). Fields that the code fills from JSON numbers, or with
  numbers it has already tested with \<^verbatim>\<open>Number.isFinite\<close>, hold reals. \<open>null\<close> and
  \<open>undefined\<close> are \<open>None\<close> in an option field: the code tests them together
  (\<^verbatim>\<open>== null\<close>, \<^verbatim>\<open>??\<close>).
\<close>

datatype jsnum = Fin real | PInf | NInf | NaN

text \<open>
  The values a property can hold: the JSON values, \<open>undefined\<close>, and the one object that
  is not JSON, the \<^verbatim>\<open>Date\<close> stored as \<^verbatim>\<open>lastSeenDate\<close> (its time value in milliseconds,
  \<open>None\<close> for an invalid date).
\<close>

datatype json = JUndefined | JNull | JBool bool | JNum real | JStr string
  | JObj "(string \<times> json) list" | JArr "json list" | JDate "int option"

datatype js_error = TypeError | RangeError | Error string

datatype alarm_state = Danger | Warning

text \<open>
  One tracked target. Fields whose source name is a HOL constant or a one-letter name
  carry the suffix \<open>_t\<close> (\<open>x_t\<close>, \<open>y_t\<close>, \<open>range_t\<close>, \<open>length_t\<close>, \<open>type_t\<close>, \<open>context_t\<close>,
  \<open>name_t\<close>). The numeric fields the kinematics read (\<open>latitude\<close>, \<open>longitude\<close>, \<open>sog\<close>,
  \<open>cog\<close>) hold a number or nothing; the fields the code only formats hold any value. The
  display strings (\<^verbatim>\<open>cpaFormatted\<close> and the like) and the country lookup are written by
  the code and read by no operation here: their values are left out of the record, the
  exceptions their computation throws are not (see \<open>formatThrows\<close>).
\<close>

record target =
  mmsi :: string
  context_t :: "string option"
  needsRecalc :: "bool option"
  latitude :: "real option"
  longitude :: "real option"
  sog :: "real option"
  cog :: "real option"
  lastSeenDate :: "int option"
  name_t :: json
  callsign :: json
  imo :: json
  magvar :: json
  hdg :: json
  rot :: json
  typeId :: json
  type_t :: json
  status :: json
  aisClass :: json
  destination :: json
  length_t :: json
  beam :: json
  draft :: json
  isOffPosition :: "int option"
  isVirtual :: "int option"
  x_t :: "jsnum option"
  y_t :: "jsnum option"
  vx :: "jsnum option"
  vy :: "jsnum option"
  range_t :: "real option"
  bearing :: "jsnum option"
  cpa :: "real option"
  tcpa :: "real option"
  guardAlarm :: "bool option"
  collisionAlarm :: "bool option"
  collisionWarning :: "bool option"
  sartAlarm :: "bool option"
  mobAlarm :: "bool option"
  epirbAlarm :: "bool option"
  alarmState :: "alarm_state option"
  alarmType :: "string option"
  order :: "int option"
  lastSeen :: "jsnum option"
  isLost :: "bool option"
  isValid :: "bool option"

text \<open>
  The collision profiles: \<^verbatim>\<open>collisionProfiles[collisionProfiles.current]\<close> is a lookup
  by name, and each profile holds the groups \<^verbatim>\<open>warning\<close>, \<^verbatim>\<open>danger\<close> and \<^verbatim>\<open>guard\<close>. A
  missing profile or a missing group is \<open>None\<close>; reading a property of it is a TypeError.
  The thresholds themselves are numbers.
\<close>

record cpa_threshold =
  th_cpa :: real
  th_tcpa :: real
  th_speed :: real

record guard_threshold =
  g_range :: real
  g_speed :: real

record profile =
  warning :: "cpa_threshold option"
  danger :: "cpa_threshold option"
  guard :: "guard_threshold option"

record collisionProfiles =
  current :: string
  profiles :: "string \<rightharpoonup> profile"

subsection \<open>Constants\<close>

definition METERS_PER_NM :: real where
  "METERS_PER_NM = 1852"

definition KNOTS_PER_M_PER_S :: real where
  "KNOTS_PER_M_PER_S = 1.94384"

definition LOST_TARGET_WARNING_AGE :: real where
  "LOST_TARGET_WARNING_AGE = 10 * 60"

definition TCPA_MAX_SECONDS :: real where
  "TCPA_MAX_SECONDS = 3 * 3600"

definition PRIORITY_ORDER_DANGER :: int where
  "PRIORITY_ORDER_DANGER = 10000"

definition PRIORITY_ORDER_WARNING :: int where
  "PRIORITY_ORDER_WARNING = 20000"

definition PRIORITY_ORDER_CLOSING :: int where
  "PRIORITY_ORDER_CLOSING = 30000"

definition PRIORITY_ORDER_DIVERGING :: int where
  "PRIORITY_ORDER_DIVERGING = 40000"

definition PRIORITY_ORDER_NO_RANGE :: int where
  "PRIORITY_ORDER_NO_RANGE = 50000"

definition HAS_TCPA_BONUS :: int where
  "HAS_TCPA_BONUS = 1000"

definition TCPA_WEIGHT :: real where
  "TCPA_WEIGHT = 1000"

definition CPA_WEIGHT :: real where
  "CPA_WEIGHT = 2000"

definition RANGE_WEIGHT_PER_NM :: real where
  "RANGE_WEIGHT_PER_NM = 100"

definition RANGE_WEIGHT_MAX :: int where
  "RANGE_WEIGHT_MAX = 5000"

definition ORDER_MIN :: int where
  "ORDER_MIN = - 99999"

definition ORDER_MAX :: int where
  "ORDER_MAX = 99999"

section \<open>Risk classifier and priority ranker\<close>

definition startsWith :: "string \<Rightarrow> string \<Rightarrow> bool" where
  "startsWith s p = (take (length p) s = p)"

fun join_comma :: "string list \<Rightarrow> string" where
  "join_comma [] = []"
| "join_comma [s] = s"
| "join_comma (s # r # rs) = s @ '','' @ join_comma (r # rs)"

text \<open>
  The speed gate shared by the three rules:
  \<^verbatim>\<open>th.speed === 0 || (target.sog != null && target.sog > th.speed / KNOTS_PER_M_PER_S)\<close>.
\<close>

definition speedGate :: "real \<Rightarrow> real option \<Rightarrow> bool" where
  "speedGate sp s =
     (sp = 0 \<or> (case s of None \<Rightarrow> False | Some v \<Rightarrow> v > sp / KNOTS_PER_M_PER_S))"

text \<open>
  The right-hand side of \<^verbatim>\<open>target.guardAlarm = ...\<close>. \<^verbatim>\<open>&&\<close> short-circuits: with a
  null range no profile is read and the value is false; otherwise the profile and its
  guard group are dereferenced, and a missing one throws.
\<close>

definition guardExpr :: "target \<Rightarrow> collisionProfiles \<Rightarrow> js_error + bool" where
  "guardExpr t ps =
     (case range_t t of
        None \<Rightarrow> Inr False
      | Some r \<Rightarrow>
          (case profiles ps (current ps) of
             None \<Rightarrow> Inl TypeError
           | Some p \<Rightarrow>
               (case guard p of
                  None \<Rightarrow> Inl TypeError
                | Some g \<Rightarrow>
                    Inr (r < g_range g * METERS_PER_NM \<and> speedGate (g_speed g) (sog t)))))"

text \<open>
  The right-hand side of \<^verbatim>\<open>target.collisionAlarm = ...\<close> (group \<^verbatim>\<open>danger\<close>) and of
  \<^verbatim>\<open>target.collisionWarning = ...\<close> (group \<^verbatim>\<open>warning\<close>); the two differ in the group only.
\<close>

definition collisionExpr ::
  "(profile \<Rightarrow> cpa_threshold option) \<Rightarrow> target \<Rightarrow> collisionProfiles \<Rightarrow> js_error + bool" where
  "collisionExpr grp t ps =
     (case cpa t of
        None \<Rightarrow> Inr False
      | Some c \<Rightarrow>
          (case profiles ps (current ps) of
             None \<Rightarrow> Inl TypeError
           | Some p \<Rightarrow>
               (case grp p of
                  None \<Rightarrow> Inl TypeError
                | Some th \<Rightarrow>
                    Inr (c < th_cpa th * METERS_PER_NM \<and>
                         (case tcpa t of
                            None \<Rightarrow> False
                          | Some tc \<Rightarrow> tc > 0 \<and> tc < th_tcpa th \<and>
                              speedGate (th_speed th) (sog t))))))"

definition isTrue :: "bool option \<Rightarrow> bool" where
  "isTrue b = (b = Some True)"

text \<open>The base order and alarm state chosen by the \<^verbatim>\<open>if / else if\<close> chain.\<close>

definition setAlarmState :: "target \<Rightarrow> target" where
  "setAlarmState t =
     (if isTrue (guardAlarm t) \<or> isTrue (collisionAlarm t) \<or> isTrue (sartAlarm t) \<or>
         isTrue (mobAlarm t) \<or> isTrue (epirbAlarm t)
      then t\<lparr>alarmState := Some Danger, order := Some PRIORITY_ORDER_DANGER\<rparr>
      else if isTrue (collisionWarning t)
      then t\<lparr>alarmState := Some Warning, order := Some PRIORITY_ORDER_WARNING\<rparr>
      else if (case tcpa t of None \<Rightarrow> False | Some tc \<Rightarrow> tc > 0)
      then t\<lparr>alarmState := None, order := Some PRIORITY_ORDER_CLOSING\<rparr>
      else t\<lparr>alarmState := None, order := Some PRIORITY_ORDER_DIVERGING\<rparr>)"

definition setAlarmType :: "target \<Rightarrow> target" where
  "setAlarmType t =
     (let alarms =
            (if isTrue (guardAlarm t) then [''guard''] else []) @
            (if isTrue (collisionAlarm t) \<or> isTrue (collisionWarning t) then [''cpa''] else []) @
            (if isTrue (sartAlarm t) then [''sart''] else []) @
            (if isTrue (mobAlarm t) then [''mob''] else []) @
            (if isTrue (epirbAlarm t) then [''epirb''] else [])
      in if length alarms > 0 then t\<lparr>alarmType := Some (join_comma alarms)\<rparr>
         else t\<lparr>alarmType := None\<rparr>)"

text \<open>
  The three modifiers and the clamp. \<^verbatim>\<open>target.order\<close> is a number here: the chain above
  has just assigned it. \<^verbatim>\<open>Math.round\<close> is \<open>round\<close> (\<open>\<lfloor>x + 1/2\<rfloor>\<close>).
\<close>

definition tcpaAdjust :: "real option \<Rightarrow> int" where
  "tcpaAdjust tc =
     (case tc of
        None \<Rightarrow> 0
      | Some v \<Rightarrow>
          if v > 0
          then HAS_TCPA_BONUS + max 0 (round (TCPA_WEIGHT - (TCPA_WEIGHT * v) / 3600))
          else 0)"

definition cpaAdjust :: "real option \<Rightarrow> int" where
  "cpaAdjust c =
     (case c of
        None \<Rightarrow> 0
      | Some v \<Rightarrow>
          if v > 0
          then max 0 (round (CPA_WEIGHT - (CPA_WEIGHT * v) / 5 / METERS_PER_NM))
          else 0)"

definition rangeAdjust :: "real option \<Rightarrow> int" where
  "rangeAdjust r =
     (case r of
        None \<Rightarrow> PRIORITY_ORDER_NO_RANGE
      | Some v \<Rightarrow>
          if v > 0
          then min RANGE_WEIGHT_MAX (round ((RANGE_WEIGHT_PER_NM * v) / METERS_PER_NM))
          else 0)"

definition adjustOrder :: "target \<Rightarrow> target" where
  "adjustOrder t =
     (case order t of
        None \<Rightarrow> t
      | Some o0 \<Rightarrow>
          (let o1 = o0 - tcpaAdjust (tcpa t);
               o2 = o1 - cpaAdjust (cpa t);
               o3 = o2 + rangeAdjust (range_t t)
           in t\<lparr>order := Some (max ORDER_MIN (min ORDER_MAX o3))\<rparr>))"

text \<open>
  The body of the \<^verbatim>\<open>try\<close> block. The target is mutated in place, so an exception leaves
  it as it was when the exception was thrown: the result is the exception, if any, and
  the target at that moment.
\<close>

definition evaluateAlarms_try :: "target \<Rightarrow> collisionProfiles \<Rightarrow> js_error option \<times> target" where
  "evaluateAlarms_try t ps =
     (case guardExpr t ps of
        Inl e \<Rightarrow> (Some e, t)
      | Inr g \<Rightarrow>
          (let t1 = t\<lparr>guardAlarm := Some g\<rparr> in
           case collisionExpr danger t1 ps of
             Inl e \<Rightarrow> (Some e, t1)
           | Inr c \<Rightarrow>
               (let t2 = t1\<lparr>collisionAlarm := Some c\<rparr> in
                case collisionExpr warning t2 ps of
                  Inl e \<Rightarrow> (Some e, t2)
                | Inr w \<Rightarrow>
                    (let t3 = t2\<lparr>collisionWarning := Some w,
                                sartAlarm := Some (startsWith (mmsi t2) ''970''),
                                mobAlarm := Some (startsWith (mmsi t2) ''972''),
                                epirbAlarm := Some (startsWith (mmsi t2) ''974'')\<rparr>
                     in (None, adjustOrder (setAlarmType (setAlarmState t3)))))))"

text \<open>
  \<^verbatim>\<open>evaluateAlarms\<close>: the \<^verbatim>\<open>catch\<close> clause logs the exception and returns normally, so the
  caller sees only the target.
\<close>

definition evaluateAlarms :: "target \<Rightarrow> collisionProfiles \<Rightarrow> target" where
  "evaluateAlarms t ps = snd (evaluateAlarms_try t ps)"

section \<open>JavaScript values\<close>


fun nullish_j :: "json \<Rightarrow> bool" where
  "nullish_j JUndefined = True"
| "nullish_j JNull = True"
| "nullish_j v = False"



fun isNumber :: "json \<Rightarrow> bool" where
  "isNumber (JNum v) = True"
| "isNumber v = False"

fun isString :: "json \<Rightarrow> bool" where
  "isString (JStr s) = True"
| "isString v = False"

subsection \<open>Arithmetic on numbers\<close>

text \<open>
  The operations of ECMAScript on the extended values. \<open>fin\<close> is the result of an
  operation whose exact value is the given real: an infinity once the magnitude reaches
  \<open>2^1024\<close>. The sign of a zero and underflow are not tracked.
\<close>

definition OVERFLOW :: real where
  "OVERFLOW = 2 ^ 1024"

definition fin :: "real \<Rightarrow> jsnum" where
  "fin r = (if r \<ge> OVERFLOW then PInf else if r \<le> - OVERFLOW then NInf else Fin r)"

fun js_neg :: "jsnum \<Rightarrow> jsnum" where
  "js_neg (Fin a) = Fin (- a)"
| "js_neg PInf = NInf"
| "js_neg NInf = PInf"
| "js_neg NaN = NaN"

fun js_add :: "jsnum \<Rightarrow> jsnum \<Rightarrow> jsnum" where
  "js_add (Fin a) (Fin b) = fin (a + b)"
| "js_add NaN v = NaN"
| "js_add v NaN = NaN"
| "js_add PInf NInf = NaN"
| "js_add NInf PInf = NaN"
| "js_add PInf v = PInf"
| "js_add v PInf = PInf"
| "js_add NInf v = NInf"
| "js_add v NInf = NInf"

definition js_sub :: "jsnum \<Rightarrow> jsnum \<Rightarrow> jsnum" where
  "js_sub a b = js_add a (js_neg b)"

fun js_mul :: "jsnum \<Rightarrow> jsnum \<Rightarrow> jsnum" where
  "js_mul (Fin a) (Fin b) = fin (a * b)"
| "js_mul NaN v = NaN"
| "js_mul v NaN = NaN"
| "js_mul (Fin a) PInf = (if a = 0 then NaN else if a > 0 then PInf else NInf)"
| "js_mul (Fin a) NInf = (if a = 0 then NaN else if a > 0 then NInf else PInf)"
| "js_mul PInf (Fin b) = (if b = 0 then NaN else if b > 0 then PInf else NInf)"
| "js_mul NInf (Fin b) = (if b = 0 then NaN else if b > 0 then NInf else PInf)"
| "js_mul PInf PInf = PInf"
| "js_mul PInf NInf = NInf"
| "js_mul NInf PInf = NInf"
| "js_mul NInf NInf = PInf"

fun js_div :: "jsnum \<Rightarrow> jsnum \<Rightarrow> jsnum" where
  "js_div (Fin a) (Fin b) =
     (if b \<noteq> 0 then fin (a / b)
      else if a > 0 then PInf else if a < 0 then NInf else NaN)"
| "js_div NaN v = NaN"
| "js_div v NaN = NaN"
| "js_div (Fin a) PInf = Fin 0"
| "js_div (Fin a) NInf = Fin 0"
| "js_div PInf (Fin b) = (if b \<ge> 0 then PInf else NInf)"
| "js_div NInf (Fin b) = (if b \<ge> 0 then NInf else PInf)"
| "js_div PInf PInf = NaN"
| "js_div PInf NInf = NaN"
| "js_div NInf PInf = NaN"
| "js_div NInf NInf = NaN"

fun js_sqrt :: "jsnum \<Rightarrow> jsnum" where
  "js_sqrt (Fin a) = (if a < 0 then NaN else Fin (sqrt a))"
| "js_sqrt PInf = PInf"
| "js_sqrt NInf = NaN"
| "js_sqrt NaN = NaN"

fun js_log :: "jsnum \<Rightarrow> jsnum" where
  "js_log (Fin v) = (if v > 0 then Fin (ln v) else if v = 0 then NInf else NaN)"
| "js_log PInf = PInf"
| "js_log NInf = NaN"
| "js_log NaN = NaN"

definition atan2 :: "real \<Rightarrow> real \<Rightarrow> real" where
  "atan2 b a =
     (if a > 0 then arctan (b / a)
      else if a < 0 then (if b \<ge> 0 then arctan (b / a) + pi else arctan (b / a) - pi)
      else if b > 0 then pi / 2 else if b < 0 then - (pi / 2) else 0)"

fun js_atan2 :: "real \<Rightarrow> jsnum \<Rightarrow> jsnum" where
  "js_atan2 b (Fin a) = Fin (atan2 b a)"
| "js_atan2 b PInf = Fin 0"
| "js_atan2 b NInf = Fin (if b \<ge> 0 then pi else - pi)"
| "js_atan2 b NaN = NaN"

text \<open>\<open>js_rem\<close> is the remainder operator \<^verbatim>\<open>%\<close>, whose result takes the sign of the dividend.\<close>

definition trunc :: "real \<Rightarrow> int" where
  "trunc q = (if q \<ge> 0 then \<lfloor>q\<rfloor> else \<lceil>q\<rceil>)"

fun js_rem :: "jsnum \<Rightarrow> real \<Rightarrow> jsnum" where
  "js_rem (Fin a) n = (if n = 0 then NaN else Fin (a - n * of_int (trunc (a / n))))"
| "js_rem PInf n = NaN"
| "js_rem NInf n = NaN"
| "js_rem NaN n = NaN"

fun js_plus :: "jsnum \<Rightarrow> real \<Rightarrow> jsnum" where
  "js_plus (Fin a) b = Fin (a + b)"
| "js_plus PInf b = PInf"
| "js_plus NInf b = NInf"
| "js_plus NaN b = NaN"

fun js_round :: "jsnum \<Rightarrow> jsnum" where
  "js_round (Fin a) = Fin (of_int (round a))"
| "js_round PInf = PInf"
| "js_round NInf = NInf"
| "js_round NaN = NaN"

fun js_less :: "jsnum \<Rightarrow> real \<Rightarrow> bool" where
  "js_less (Fin a) b = (a < b)"
| "js_less PInf b = False"
| "js_less NInf b = True"
| "js_less NaN b = False"

fun js_greater :: "jsnum \<Rightarrow> real \<Rightarrow> bool" where
  "js_greater (Fin a) b = (a > b)"
| "js_greater PInf b = True"
| "js_greater NInf b = False"
| "js_greater NaN b = False"

fun js_greater_eq :: "jsnum \<Rightarrow> real \<Rightarrow> bool" where
  "js_greater_eq (Fin a) b = (a \<ge> b)"
| "js_greater_eq PInf b = True"
| "js_greater_eq NInf b = False"
| "js_greater_eq NaN b = False"

text \<open>\<^verbatim>\<open>!v\<close> on a number: zero and \<open>NaN\<close> are falsy.\<close>

fun js_not :: "jsnum \<Rightarrow> bool" where
  "js_not (Fin a) = (a = 0)"
| "js_not NaN = True"
| "js_not v = False"

fun Number_isFinite :: "jsnum \<Rightarrow> bool" where
  "Number_isFinite (Fin a) = True"
| "Number_isFinite v = False"

text \<open>The real behind a finite number; read only after \<open>Number_isFinite\<close>.\<close>

fun finite_value :: "jsnum \<Rightarrow> real" where
  "finite_value (Fin a) = a"
| "finite_value v = 0"

section \<open>Kinematics engine\<close>

subsection \<open>Range and bearing\<close>

definition toRadians :: "real \<Rightarrow> real" where
  "toRadians v = (v * pi) / 180"

definition toDegrees :: "real \<Rightarrow> real" where
  "toDegrees v = (v * 180) / pi"

fun toDegrees_js :: "jsnum \<Rightarrow> jsnum" where
  "toDegrees_js (Fin a) = Fin (toDegrees a)"
| "toDegrees_js PInf = PInf"
| "toDegrees_js NInf = NInf"
| "toDegrees_js NaN = NaN"

text \<open>
  The haversine distance. In exact arithmetic the quantity \<open>a\<close> lies in \<open>[0, 1]\<close>
  (lemma \<open>haversine_in_domain\<close> below), so neither square root leaves its domain.
\<close>

definition getDistanceFromLatLonInMeters :: "real \<Rightarrow> real \<Rightarrow> real \<Rightarrow> real \<Rightarrow> real" where
  "getDistanceFromLatLonInMeters lat1 lon1 lat2 lon2 =
     (let R = 6371000;
          dLat = toRadians (lat2 - lat1);
          dLon = toRadians (lon2 - lon1);
          a = sin (dLat / 2) * sin (dLat / 2) +
              cos (toRadians lat1) * cos (toRadians lat2) * sin (dLon / 2) * sin (dLon / 2);
          c = 2 * atan2 (sqrt a) (sqrt (1 - a));
          d = R * c
      in d)"

text \<open>
  \<^verbatim>\<open>Math.tan\<close>. The exact tangent has a pole at \<open>pi / 2\<close>; the double nearest to \<open>pi / 2\<close>
  lies just below it, and there \<^verbatim>\<open>Math.tan\<close> returns 16331239353195370. The rhumb-line
  formula reaches that argument at a latitude of exactly 90 (and the argument 0, where
  the tangent is 0, at exactly -90). For a latitude in \<open>[-90, 90]\<close> no other pole is met;
  at the further poles and zeros of the tangent (latitudes of 270 and beyond) the exact
  and the double-precision tangent differ in the same way and no statement below is
  about them.
\<close>

definition TAN_HALF_PI :: real where
  "TAN_HALF_PI = 16331239353195370"

definition js_tan :: "real \<Rightarrow> real" where
  "js_tan a = (if a = pi / 2 then TAN_HALF_PI else tan a)"

text \<open>
  The rhumb-line bearing. The quotient of the two tangents and its logarithm are where a
  latitude can leave the domain: a negative quotient or \<open>0 / 0\<close> gives \<open>NaN\<close>, which the
  arc tangent, the addition and the remainder pass on.
\<close>

definition getRhumbLineBearing :: "real \<Rightarrow> real \<Rightarrow> real \<Rightarrow> real \<Rightarrow> jsnum" where
  "getRhumbLineBearing lat1 lon1 lat2 lon2 =
     (let diffLon0 = toRadians (lon2 - lon1);
          diffPhi = js_log (js_div (Fin (js_tan (toRadians lat2 / 2 + pi / 4)))
                                   (Fin (js_tan (toRadians lat1 / 2 + pi / 4))));
          diffLon = (if \<bar>diffLon0\<bar> > pi
                     then (if diffLon0 > 0 then (pi * 2 - diffLon0) * - 1
                           else pi * 2 + diffLon0)
                     else diffLon0)
      in js_rem (js_plus (toDegrees_js (js_atan2 diffLon diffPhi)) 360) 360)"

definition calculateRangeAndBearing :: "target \<Rightarrow> target \<Rightarrow> target" where
  "calculateRangeAndBearing selfTarget t =
     (if latitude selfTarget = None \<or> longitude selfTarget = None \<or>
         latitude t = None \<or> longitude t = None
      then t\<lparr>range_t := None, bearing := None\<rparr>
      else
        (let slat = the (latitude selfTarget); slon = the (longitude selfTarget);
             tlat = the (latitude t); tlon = the (longitude t);
             r = of_int (round (getDistanceFromLatLonInMeters slat slon tlat tlon));
             b = js_round (getRhumbLineBearing slat slon tlat tlon)
         in t\<lparr>range_t := Some r,
              bearing := Some (if js_greater_eq b 360 then Fin 0 else b)\<rparr>))"

subsection \<open>Closest point of approach\<close>

definition dot :: "jsnum \<times> jsnum \<Rightarrow> jsnum \<times> jsnum \<Rightarrow> jsnum" where
  "dot u v = js_add (js_mul (fst u) (fst v)) (js_mul (snd u) (snd v))"

definition norm_v :: "jsnum \<times> jsnum \<Rightarrow> jsnum" where
  "norm_v v = js_sqrt (dot v v)"

definition dist_v :: "jsnum \<times> jsnum \<Rightarrow> jsnum \<times> jsnum \<Rightarrow> jsnum" where
  "dist_v u v = norm_v (js_sub (fst u) (fst v), js_sub (snd u) (snd v))"

text \<open>
  \<^verbatim>\<open>updateCpa(selfTarget, target)\<close>. After the guard \<^verbatim>\<open>Number.isFinite\<close> both results are
  finite, and the fields \<open>cpa\<close> and \<open>tcpa\<close> hold reals.
\<close>

definition updateCpa :: "target \<Rightarrow> target \<Rightarrow> target" where
  "updateCpa selfTarget t =
     (if x_t selfTarget = None \<or> y_t selfTarget = None \<or>
         vx selfTarget = None \<or> vy selfTarget = None \<or>
         x_t t = None \<or> y_t t = None \<or> vx t = None \<or> vy t = None
      then t\<lparr>cpa := None, tcpa := None\<rparr>
      else
        (let dv = (js_sub (the (vx t)) (the (vx selfTarget)),
                   js_sub (the (vy t)) (the (vy selfTarget)));
             dv2 = dot dv dv
         in if js_less dv2 0.00000001 then t\<lparr>cpa := None, tcpa := None\<rparr>
            else
              (let w0 = (js_sub (the (x_t t)) (the (x_t selfTarget)),
                         js_sub (the (y_t t)) (the (y_t selfTarget)));
                   tc = js_div (js_neg (dot w0 dv)) dv2
               in if js_not tc \<or> js_less tc 0 \<or> js_greater tc TCPA_MAX_SECONDS
                  then t\<lparr>cpa := None, tcpa := None\<rparr>
                  else
                    (let p1 = (js_add (the (x_t selfTarget)) (js_mul tc (the (vx selfTarget))),
                               js_add (the (y_t selfTarget)) (js_mul tc (the (vy selfTarget))));
                         p2 = (js_add (the (x_t t)) (js_mul tc (the (vx t))),
                               js_add (the (y_t t)) (js_mul tc (the (vy t))));
                         c = dist_v p1 p2
                     in if \<not> Number_isFinite c \<or> \<not> Number_isFinite tc
                        then t\<lparr>cpa := None, tcpa := None\<rparr>
                        else t\<lparr>cpa := Some (of_int (round (finite_value c))),
                               tcpa := Some (of_int (round (finite_value tc)))\<rparr>))))"

subsection \<open>Per-target update\<close>

definition nullish :: "real option \<Rightarrow> real \<Rightarrow> real" where
  "nullish v d = (case v of None \<Rightarrow> d | Some a \<Rightarrow> a)"

text \<open>
  The age in seconds:
  \<^verbatim>\<open>let lastSeen = Math.round((Date.now() - target.lastSeenDate) / 1000); if (lastSeen < 0) lastSeen = 0\<close>.
\<close>

definition age :: "int option \<Rightarrow> int \<Rightarrow> jsnum" where
  "age seen now =
     (let lastSeen0 = (case seen of
                         None \<Rightarrow> NaN
                       | Some d \<Rightarrow> Fin (of_int (round ((of_int now - of_int d) / (1000::real)))))
      in if js_less lastSeen0 0 then Fin 0 else lastSeen0)"

text \<open>
  The display-string block, between the assignment of \<^verbatim>\<open>isLost\<close> and the test that
  assigns \<^verbatim>\<open>isValid\<close>. Three of its statements can throw:
  \<^item> \<^verbatim>\<open>formatTcpa(target.tcpa)\<close> calls \<^verbatim>\<open>new Date(1000 * Math.abs(tcpa)).toISOString()\<close> for a
    tcpa that is neither null nor negative: a RangeError once the time value exceeds
    8.64e15 ms;
  \<^item> \<^verbatim>\<open>target.length?.toFixed(1)\<close> and \<^verbatim>\<open>target.beam?.toFixed(1)\<close>: a TypeError for a value
    that is neither null, undefined nor a number;
  \<^item> \<^verbatim>\<open>target.imo?.replace(/imo/i, "")\<close>: a TypeError for a value that is neither null,
    undefined nor a string.
  The other statements format numbers, or coerce a value to a number or a string, and
  do not throw.
\<close>

definition formatTcpaThrows :: "real option \<Rightarrow> bool" where
  "formatTcpaThrows tc =
     (case tc of None \<Rightarrow> False | Some v \<Rightarrow> \<not> v < 0 \<and> 1000 * \<bar>v\<bar> > 8640000000000000)"

definition toFixedThrows :: "json \<Rightarrow> bool" where
  "toFixedThrows v = (\<not> nullish_j v \<and> \<not> isNumber v)"

definition replaceThrows :: "json \<Rightarrow> bool" where
  "replaceThrows v = (\<not> nullish_j v \<and> \<not> isString v)"

definition formatThrows :: "target \<Rightarrow> js_error option" where
  "formatThrows t =
     (if formatTcpaThrows (tcpa t) then Some RangeError
      else if toFixedThrows (length_t t) \<or> toFixedThrows (beam t) then Some TypeError
      else if replaceThrows (imo t) then Some TypeError
      else None)"

text \<open>
  \<^verbatim>\<open>updateSingleTargetDerivedData(target, selfTarget, collisionProfiles, TARGET_MAX_AGE)\<close>.
  \<open>now\<close> is the value of \<^verbatim>\<open>Date.now()\<close> in milliseconds; \<open>lastSeenDate\<close> is the time value
  of the stored date, \<open>None\<close> when the property is undefined or the date is invalid, and
  the subtraction is then \<open>NaN\<close>. The target and the own vessel are distinct objects
  whenever their ids differ, so the own vessel is read only. The target is mutated in
  place: the result of \<open>updateSingleTargetDerivedData_run\<close> is the exception thrown, if
  any, and the target as the call leaves it; \<open>updateSingleTargetDerivedData\<close> is that
  target.
\<close>

definition updateSingleTargetDerivedData_run ::
  "target \<Rightarrow> target \<Rightarrow> collisionProfiles \<Rightarrow> real \<Rightarrow> int \<Rightarrow> js_error option \<times> target" where
  "updateSingleTargetDerivedData_run t selfTarget ps TARGET_MAX_AGE now =
     (let lat = nullish (latitude t) 0;
          lon = nullish (longitude t) 0;
          sog0 = nullish (sog t) 0;
          cog0 = nullish (cog t) 0;
          selfLat = nullish (latitude selfTarget) 0;
          clampedSelfLat = max (- 89.9) (min 89.9 selfLat);
          t1 = t\<lparr>y_t := Some (js_mul (Fin lat) (Fin 111120)),
                 x_t := Some (js_mul (js_mul (Fin lon) (Fin 111120))
                                     (Fin (cos (toRadians clampedSelfLat)))),
                 vy := Some (js_mul (Fin sog0) (Fin (cos cog0))),
                 vx := Some (js_mul (Fin sog0) (Fin (sin cog0)))\<rparr>;
          t2 = (if mmsi t1 \<noteq> mmsi selfTarget
                then evaluateAlarms (updateCpa selfTarget (calculateRangeAndBearing selfTarget t1)) ps
                else t1);
          lastSeen1 = age (lastSeenDate t2) now;
          t3 = t2\<lparr>lastSeen := Some lastSeen1,
                  isLost := Some (js_greater lastSeen1 LOST_TARGET_WARNING_AGE)\<rparr>
      in case formatThrows t3 of
           Some e \<Rightarrow> (Some e, t3)
         | None \<Rightarrow>
             (None,
              if latitude t3 = None \<or> longitude t3 = None \<or> js_greater lastSeen1 TARGET_MAX_AGE
              then t3\<lparr>isValid := Some False\<rparr>
              else t3\<lparr>isValid := Some True\<rparr>))"

definition updateSingleTargetDerivedData ::
  "target \<Rightarrow> target \<Rightarrow> collisionProfiles \<Rightarrow> real \<Rightarrow> int \<Rightarrow> target" where
  "updateSingleTargetDerivedData t selfTarget ps TARGET_MAX_AGE now =
     snd (updateSingleTargetDerivedData_run t selfTarget ps TARGET_MAX_AGE now)"

subsection \<open>The tick\<close>





section \<open>Update merger\<close>















section \<open>Fixtures\<close>

text \<open>
  A target as \<^verbatim>\<open>processDelta\<close> seeds it, \<^verbatim>\<open>{ sog: 0, cog: 0, mmsi: mmsi, needsRecalc: true }\<close>,
  every other property undefined.
\<close>

definition newTarget :: "string \<Rightarrow> target" where
  "newTarget m =
     \<lparr>mmsi = m, context_t = None, needsRecalc = Some True,
      latitude = None, longitude = None, sog = Some 0, cog = Some 0, lastSeenDate = None,
      name_t = JUndefined, callsign = JUndefined, imo = JUndefined, magvar = JUndefined,
      hdg = JUndefined, rot = JUndefined, typeId = JUndefined, type_t = JUndefined,
      status = JUndefined, aisClass = JUndefined, destination = JUndefined,
      length_t = JUndefined, beam = JUndefined, draft = JUndefined,
      isOffPosition = None, isVirtual = None,
      x_t = None, y_t = None, vx = None, vy = None, range_t = None, bearing = None,
      cpa = None, tcpa = None,
      guardAlarm = None, collisionAlarm = None, collisionWarning = None,
      sartAlarm = None, mobAlarm = None, epirbAlarm = None,
      alarmState = None, alarmType = None, order = None,
      lastSeen = None, isLost = None, isValid = None\<rparr>"

text \<open>
  \<open>harbor\<close> is the shape of the profile used by the repository's tests, with a guard
  range of one nautical mile.
\<close>

definition harbor :: profile where
  "harbor = \<lparr>warning = Some \<lparr>th_cpa = 0.5, th_tcpa = 600, th_speed = 0.5\<rparr>,
             danger = Some \<lparr>th_cpa = 0.1, th_tcpa = 300, th_speed = 3\<rparr>,
             guard = Some \<lparr>g_range = 1, g_speed = 0\<rparr>\<rparr>"

definition testProfiles :: collisionProfiles where
  "testProfiles = \<lparr>current = ''harbor'', profiles = [''harbor'' \<mapsto> harbor]\<rparr>"



text \<open>
  The own vessel at rest at the origin of the plane; a target 30 m east and 100 m north
  of it heading south at 1 m/s; and a target on the same course \<open>2^600\<close> m to the east.
\<close>

definition ownShip :: target where
  "ownShip = (newTarget ''000000001'')\<lparr>x_t := Some (Fin 0), y_t := Some (Fin 0),
                                          vx := Some (Fin 0), vy := Some (Fin 0)\<rparr>"

definition crossingTarget :: target where
  "crossingTarget =
     (newTarget ''123456789'')\<lparr>x_t := Some (Fin 30), y_t := Some (Fin 100),
                                 vx := Some (Fin 0), vy := Some (Fin (- 1))\<rparr>"

definition farTarget :: target where
  "farTarget =
     (newTarget ''123456789'')\<lparr>x_t := Some (Fin (2 ^ 600)), y_t := Some (Fin 100),
                                 vx := Some (Fin 0), vy := Some (Fin (- 1))\<rparr>"

text \<open>
  The own vessel with a fix at latitude 0, longitude 0; a target at the same place; a
  target at the north pole and one at the south pole; and a target reporting latitude 91,
  the value AIS transmits for "latitude not available".
\<close>

definition fixedSelf :: target where
  "fixedSelf = (newTarget ''000000001'')\<lparr>latitude := Some 0, longitude := Some 0,
                                            lastSeenDate := Some 0\<rparr>"

definition equatorTarget :: target where
  "equatorTarget = (newTarget ''123456789'')\<lparr>latitude := Some 0, longitude := Some 0,
                                                lastSeenDate := Some 0\<rparr>"

definition northPoleTarget :: target where
  "northPoleTarget = (newTarget ''123456789'')\<lparr>latitude := Some 90, longitude := Some 0,
                                                  lastSeenDate := Some 0\<rparr>"

definition southPoleTarget :: target where
  "southPoleTarget = (newTarget ''123456789'')\<lparr>latitude := Some (- 90), longitude := Some 0,
                                                  lastSeenDate := Some 0\<rparr>"

definition sentinelTarget :: target where
  "sentinelTarget = (newTarget ''123456789'')\<lparr>latitude := Some 91, longitude := Some 0,
                                                 lastSeenDate := Some 0\<rparr>"







section \<open>Verification\<close>
subsection \<open>Bounds of the order modifiers\<close>

lemma round_le_of_int: "x \<le> of_int n \<Longrightarrow> round (x::real) \<le> n"
  using round_mono [of x "of_int n"] by simp

lemma tcpaAdjust_bounds: "0 \<le> tcpaAdjust tc \<and> tcpaAdjust tc \<le> 2000"
proof (cases tc)
  case None
  then show ?thesis by (simp add: tcpaAdjust_def)
next
  case (Some v)
  show ?thesis
  proof (cases "v > 0")
    case True
    then have "1000 - 1000 * v / 3600 \<le> of_int 1000" by simp
    then have "round (1000 - 1000 * v / 3600) \<le> 1000" by (rule round_le_of_int)
    with True Some show ?thesis
      by (simp add: tcpaAdjust_def HAS_TCPA_BONUS_def TCPA_WEIGHT_def)
  next
    case False
    with Some show ?thesis by (simp add: tcpaAdjust_def)
  qed
qed

lemma cpaAdjust_bounds: "0 \<le> cpaAdjust c \<and> cpaAdjust c \<le> 2000"
proof (cases c)
  case None
  then show ?thesis by (simp add: cpaAdjust_def)
next
  case (Some v)
  show ?thesis
  proof (cases "v > 0")
    case True
    then have "2000 - 2000 * v / 5 / 1852 \<le> of_int 2000" by simp
    then have "round (2000 - 2000 * v / 5 / 1852) \<le> 2000" by (rule round_le_of_int)
    with True Some show ?thesis
      by (simp add: cpaAdjust_def CPA_WEIGHT_def METERS_PER_NM_def)
  next
    case False
    with Some show ?thesis by (simp add: cpaAdjust_def)
  qed
qed

lemma rangeAdjust_bounds: "0 \<le> rangeAdjust r \<and> rangeAdjust r \<le> 50000"
proof (cases r)
  case None
  then show ?thesis by (simp add: rangeAdjust_def PRIORITY_ORDER_NO_RANGE_def)
next
  case (Some v)
  show ?thesis
  proof (cases "v > 0")
    case True
    then have "of_int 0 \<le> 100 * v / 1852" by simp
    then have "round (of_int 0 :: real) \<le> round (100 * v / 1852)" by (rule round_mono)
    then have "0 \<le> round (100 * v / 1852)" by simp
    with True Some show ?thesis
      by (simp add: rangeAdjust_def RANGE_WEIGHT_MAX_def RANGE_WEIGHT_PER_NM_def METERS_PER_NM_def)
  next
    case False
    with Some show ?thesis by (simp add: rangeAdjust_def)
  qed
qed

lemma guardExpr_ok:
  "profiles ps (current ps) = Some p \<Longrightarrow> guard p = Some g \<Longrightarrow>
   guardExpr t ps = Inr ((\<exists>r. range_t t = Some r \<and> r < g_range g * METERS_PER_NM) \<and>
                         speedGate (g_speed g) (sog t))"
  by (simp add: guardExpr_def split: option.splits)

lemma collisionExpr_ok:
  "profiles ps (current ps) = Some p \<Longrightarrow> grp p = Some th \<Longrightarrow> \<exists>b. collisionExpr grp t ps = Inr b"
  by (auto simp add: collisionExpr_def split: option.splits)

lemma adjustOrder_fields:
  "guardAlarm (adjustOrder t) = guardAlarm t"
  "collisionAlarm (adjustOrder t) = collisionAlarm t"
  "collisionWarning (adjustOrder t) = collisionWarning t"
  "sartAlarm (adjustOrder t) = sartAlarm t"
  "mobAlarm (adjustOrder t) = mobAlarm t"
  "epirbAlarm (adjustOrder t) = epirbAlarm t"
  "alarmState (adjustOrder t) = alarmState t"
  "alarmType (adjustOrder t) = alarmType t"
  "tcpa (adjustOrder t) = tcpa t"
  "cpa (adjustOrder t) = cpa t"
  "range_t (adjustOrder t) = range_t t"
  "bearing (adjustOrder t) = bearing t"
  "latitude (adjustOrder t) = latitude t"
  "longitude (adjustOrder t) = longitude t"
  "lastSeenDate (adjustOrder t) = lastSeenDate t"
  by (simp_all add: adjustOrder_def Let_def split: option.splits)

lemma setAlarmType_fields:
  "guardAlarm (setAlarmType t) = guardAlarm t"
  "collisionAlarm (setAlarmType t) = collisionAlarm t"
  "collisionWarning (setAlarmType t) = collisionWarning t"
  "sartAlarm (setAlarmType t) = sartAlarm t"
  "mobAlarm (setAlarmType t) = mobAlarm t"
  "epirbAlarm (setAlarmType t) = epirbAlarm t"
  "alarmState (setAlarmType t) = alarmState t"
  "order (setAlarmType t) = order t"
  "tcpa (setAlarmType t) = tcpa t"
  "cpa (setAlarmType t) = cpa t"
  "range_t (setAlarmType t) = range_t t"
  "bearing (setAlarmType t) = bearing t"
  "latitude (setAlarmType t) = latitude t"
  "longitude (setAlarmType t) = longitude t"
  "lastSeenDate (setAlarmType t) = lastSeenDate t"
  by (simp_all add: setAlarmType_def Let_def)

lemma setAlarmState_fields:
  "guardAlarm (setAlarmState t) = guardAlarm t"
  "collisionAlarm (setAlarmState t) = collisionAlarm t"
  "collisionWarning (setAlarmState t) = collisionWarning t"
  "sartAlarm (setAlarmState t) = sartAlarm t"
  "mobAlarm (setAlarmState t) = mobAlarm t"
  "epirbAlarm (setAlarmState t) = epirbAlarm t"
  "tcpa (setAlarmState t) = tcpa t"
  "cpa (setAlarmState t) = cpa t"
  "range_t (setAlarmState t) = range_t t"
  "bearing (setAlarmState t) = bearing t"
  "latitude (setAlarmState t) = latitude t"
  "longitude (setAlarmState t) = longitude t"
  "lastSeenDate (setAlarmState t) = lastSeenDate t"
  by (simp_all add: setAlarmState_def)

lemma collisionExpr_upd [simp]:
  "collisionExpr grp (t\<lparr>guardAlarm := a\<rparr>) ps = collisionExpr grp t ps"
  "collisionExpr grp (t\<lparr>collisionAlarm := b\<rparr>) ps = collisionExpr grp t ps"
  by (simp_all add: collisionExpr_def cong: option.case_cong)

lemma evaluateAlarms_try_cases:
  "(\<exists>e. evaluateAlarms_try t ps = (Some e, t)) \<or>
   (\<exists>e g. evaluateAlarms_try t ps = (Some e, t\<lparr>guardAlarm := Some g\<rparr>)) \<or>
   (\<exists>e g c. evaluateAlarms_try t ps = (Some e, t\<lparr>guardAlarm := Some g, collisionAlarm := Some c\<rparr>)) \<or>
   (\<exists>g c w. guardExpr t ps = Inr g \<and> collisionExpr danger t ps = Inr c \<and>
      collisionExpr warning t ps = Inr w \<and>
      evaluateAlarms_try t ps =
        (None, adjustOrder (setAlarmType (setAlarmState
           (t\<lparr>guardAlarm := Some g, collisionAlarm := Some c, collisionWarning := Some w,
              sartAlarm := Some (startsWith (mmsi t) ''970''),
              mobAlarm := Some (startsWith (mmsi t) ''972''),
              epirbAlarm := Some (startsWith (mmsi t) ''974'')\<rparr>)))))"
proof (cases "guardExpr t ps")
  case (Inl e)
  then show ?thesis by (simp add: evaluateAlarms_try_def)
next
  case g: (Inr g)
  show ?thesis
  proof (cases "collisionExpr danger t ps")
    case (Inl e)
    with g show ?thesis by (auto simp add: evaluateAlarms_try_def)
  next
    case c: (Inr c)
    show ?thesis
    proof (cases "collisionExpr warning t ps")
      case (Inl e)
      with g c show ?thesis by (auto simp add: evaluateAlarms_try_def)
    next
      case (Inr w)
      with g c show ?thesis by (simp add: evaluateAlarms_try_def)
    qed
  qed
qed

lemma stampOrder:
  "order (adjustOrder (setAlarmType (setAlarmState t))) =
     Some (max ORDER_MIN (min ORDER_MAX
       (the (order (setAlarmState t)) - tcpaAdjust (tcpa t) - cpaAdjust (cpa t) + rangeAdjust (range_t t))))"
  by (simp add: adjustOrder_def setAlarmType_fields setAlarmState_fields Let_def setAlarmState_def)

lemma evaluateAlarms_try_ok:
  assumes "profiles ps (current ps) = Some p"
    and "guard p = Some g" and "danger p = Some d" and "warning p = Some w"
  shows "\<exists>gb cb wb. guardExpr t ps = Inr gb \<and> collisionExpr danger t ps = Inr cb \<and>
           collisionExpr warning t ps = Inr wb \<and>
           evaluateAlarms_try t ps =
        (None, adjustOrder (setAlarmType (setAlarmState
           (t\<lparr>guardAlarm := Some gb, collisionAlarm := Some cb, collisionWarning := Some wb,
              sartAlarm := Some (startsWith (mmsi t) ''970''),
              mobAlarm := Some (startsWith (mmsi t) ''972''),
              epirbAlarm := Some (startsWith (mmsi t) ''974'')\<rparr>))))"
proof -
  obtain gb where gb: "guardExpr t ps = Inr gb"
    using guardExpr_ok [OF assms(1,2)] by blast
  obtain cb where cb: "collisionExpr danger t ps = Inr cb"
    using collisionExpr_ok [OF assms(1), of danger d t] assms(3) by blast
  obtain wb where wb: "collisionExpr warning t ps = Inr wb"
    using collisionExpr_ok [OF assms(1), of warning w t] assms(4) by blast
  show ?thesis using gb cb wb by (simp add: evaluateAlarms_try_def)
qed

subsection \<open>Guard alarm\<close>

text \<open>
  Claim C5. For a target classified under an active profile that has a guard group, the
  guard alarm is true if and only if the range is known and strictly below
  \<open>guard.range\<close> in meters (nautical miles times 1852), and either the guard minimum
  speed is exactly zero or the speed over ground is known and strictly above
  \<open>guard.speed\<close> in m/s (knots divided by 1.94384).
\<close>

theorem guardAlarm_iff:
  assumes "profiles ps (current ps) = Some p" and "guard p = Some g"
  shows "guardAlarm (evaluateAlarms t ps) =
           Some ((\<exists>r. range_t t = Some r \<and> r < g_range g * 1852) \<and>
                 (g_speed g = 0 \<or> (\<exists>v. sog t = Some v \<and> v > g_speed g / 1.94384)))"
proof -
  let ?G = "(\<exists>r. range_t t = Some r \<and> r < g_range g * METERS_PER_NM) \<and>
            speedGate (g_speed g) (sog t)"
  have g: "guardExpr t ps = Inr ?G" using assms by (rule guardExpr_ok)
  have "guardAlarm (evaluateAlarms t ps) = Some ?G"
    unfolding evaluateAlarms_def evaluateAlarms_try_def
    by (simp add: g Let_def adjustOrder_fields setAlarmType_fields setAlarmState_fields
             split: sum.splits)
  moreover have "speedGate (g_speed g) (sog t) =
      (g_speed g = 0 \<or> (\<exists>v. sog t = Some v \<and> v > g_speed g / 1.94384))"
    by (simp add: speedGate_def KNOTS_PER_M_PER_S_def split: option.splits)
  ultimately show ?thesis by (simp add: METERS_PER_NM_def)
qed

theorem guardAlarm_iff_witness:
  "guardAlarm (evaluateAlarms ((newTarget ''123456789'')\<lparr>range_t := Some 1000\<rparr>) testProfiles)
     = Some True \<and>
   guardAlarm (evaluateAlarms ((newTarget ''123456789'')\<lparr>range_t := Some 2000\<rparr>) testProfiles)
     = Some False"
  using guardAlarm_iff [of testProfiles harbor "\<lparr>g_range = 1, g_speed = 0\<rparr>"
                          "(newTarget ''123456789'')\<lparr>range_t := Some 1000\<rparr>"]
        guardAlarm_iff [of testProfiles harbor "\<lparr>g_range = 1, g_speed = 0\<rparr>"
                          "(newTarget ''123456789'')\<lparr>range_t := Some 2000\<rparr>"]
  by (simp add: testProfiles_def harbor_def newTarget_def)

subsection \<open>Clamp of the priority order\<close>

text \<open>
  Claim C4. After classification of a target under a profile with its three threshold
  groups, whatever the range, cpa, tcpa and thresholds are (unknown range included), the
  priority order is a number between -99999 and 99999.
\<close>

theorem order_clamped:
  assumes "profiles ps (current ps) = Some p"
    and "guard p = Some g" and "danger p = Some d" and "warning p = Some w"
  shows "\<exists>n. order (evaluateAlarms t ps) = Some n \<and> - 99999 \<le> n \<and> n \<le> 99999"
proof -
  from evaluateAlarms_try_ok [OF assms, of t]
  obtain t3 where "evaluateAlarms t ps = adjustOrder (setAlarmType (setAlarmState t3))"
    unfolding evaluateAlarms_def by auto
  then show ?thesis
    by (simp add: stampOrder ORDER_MIN_def ORDER_MAX_def)
qed

theorem order_clamped_witness:
  "\<exists>n. order (evaluateAlarms ((newTarget ''123456789'')\<lparr>range_t := Some 100000000\<rparr>) testProfiles)
         = Some n \<and> - 99999 \<le> n \<and> n \<le> 99999"
  using order_clamped [of testProfiles harbor "\<lparr>g_range = 1, g_speed = 0\<rparr>"
          "\<lparr>th_cpa = 0.1, th_tcpa = 300, th_speed = 3\<rparr>"
          "\<lparr>th_cpa = 0.5, th_tcpa = 600, th_speed = 0.5\<rparr>"
          "(newTarget ''123456789'')\<lparr>range_t := Some 100000000\<rparr>"]
  by (simp add: testProfiles_def harbor_def)

subsection \<open>Alarmed targets sort first\<close>


lemma setAlarmState_order_danger:
  "isTrue (guardAlarm t) \<or> isTrue (collisionAlarm t) \<or> isTrue (sartAlarm t) \<or>
   isTrue (mobAlarm t) \<or> isTrue (epirbAlarm t) \<Longrightarrow>
   order (setAlarmState t) = Some 10000 \<and> alarmState (setAlarmState t) = Some Danger"
  by (simp add: setAlarmState_def PRIORITY_ORDER_DANGER_def)

lemma setAlarmState_order_quiet:
  "\<not> isTrue (guardAlarm t) \<Longrightarrow> \<not> isTrue (collisionAlarm t) \<Longrightarrow> \<not> isTrue (sartAlarm t) \<Longrightarrow>
   \<not> isTrue (mobAlarm t) \<Longrightarrow> \<not> isTrue (epirbAlarm t) \<Longrightarrow> \<not> isTrue (collisionWarning t) \<Longrightarrow>
   order (setAlarmState t) = Some 30000 \<or> order (setAlarmState t) = Some 40000"
  by (simp add: setAlarmState_def PRIORITY_ORDER_CLOSING_def PRIORITY_ORDER_DIVERGING_def)

lemma clamp_inactive:
  "0 \<le> b \<Longrightarrow> b \<le> 40000 \<Longrightarrow>
   max ORDER_MIN (min ORDER_MAX (b - tcpaAdjust tc - cpaAdjust c + rangeAdjust r)) =
   b - tcpaAdjust tc - cpaAdjust c + rangeAdjust r"
  using tcpaAdjust_bounds [of tc] cpaAdjust_bounds [of c] rangeAdjust_bounds [of r]
  by (simp add: ORDER_MIN_def ORDER_MAX_def)

text \<open>
  Claim C3. Two targets classified under the same profile with the same range, cpa, tcpa
  and speed over ground: if one has an alarm (guard, collision, SART, MOB or EPIRB) and
  the other has neither an alarm nor a collision warning, the first is in state
  \<open>Danger\<close> and its priority order is strictly less than the order of the second.
\<close>

theorem alarmed_order_less:
  assumes wf: "profiles ps (current ps) = Some p"
      "guard p = Some g" "danger p = Some d" "warning p = Some w"
    and same: "range_t a = range_t b" "cpa a = cpa b" "tcpa a = tcpa b" "sog a = sog b"
    and alarmed: "guardAlarm (evaluateAlarms a ps) = Some True \<or>
                  collisionAlarm (evaluateAlarms a ps) = Some True \<or>
                  sartAlarm (evaluateAlarms a ps) = Some True \<or>
                  mobAlarm (evaluateAlarms a ps) = Some True \<or>
                  epirbAlarm (evaluateAlarms a ps) = Some True"
    and quiet: "guardAlarm (evaluateAlarms b ps) \<noteq> Some True"
               "collisionAlarm (evaluateAlarms b ps) \<noteq> Some True"
               "sartAlarm (evaluateAlarms b ps) \<noteq> Some True"
               "mobAlarm (evaluateAlarms b ps) \<noteq> Some True"
               "epirbAlarm (evaluateAlarms b ps) \<noteq> Some True"
               "collisionWarning (evaluateAlarms b ps) \<noteq> Some True"
  shows "alarmState (evaluateAlarms a ps) = Some Danger \<and>
         (\<exists>m n. order (evaluateAlarms a ps) = Some m \<and>
                 order (evaluateAlarms b ps) = Some n \<and> m < n)"
proof -
  from evaluateAlarms_try_ok [OF wf, of a]
  obtain a3 where a3: "evaluateAlarms a ps = adjustOrder (setAlarmType (setAlarmState a3))"
    and a3f: "tcpa a3 = tcpa a" "cpa a3 = cpa a" "range_t a3 = range_t a"
    unfolding evaluateAlarms_def by auto
  from evaluateAlarms_try_ok [OF wf, of b]
  obtain b3 where b3: "evaluateAlarms b ps = adjustOrder (setAlarmType (setAlarmState b3))"
    and b3f: "tcpa b3 = tcpa b" "cpa b3 = cpa b" "range_t b3 = range_t b"
    unfolding evaluateAlarms_def by auto
  have fa: "isTrue (guardAlarm a3) \<or> isTrue (collisionAlarm a3) \<or> isTrue (sartAlarm a3) \<or>
            isTrue (mobAlarm a3) \<or> isTrue (epirbAlarm a3)"
    using alarmed unfolding a3
    by (simp add: adjustOrder_fields setAlarmType_fields setAlarmState_fields isTrue_def)
  have fb: "\<not> isTrue (guardAlarm b3)" "\<not> isTrue (collisionAlarm b3)" "\<not> isTrue (sartAlarm b3)"
           "\<not> isTrue (mobAlarm b3)" "\<not> isTrue (epirbAlarm b3)" "\<not> isTrue (collisionWarning b3)"
    using quiet unfolding b3
    by (simp_all add: adjustOrder_fields setAlarmType_fields setAlarmState_fields isTrue_def)
  note da = setAlarmState_order_danger [OF fa]
  note qb = setAlarmState_order_quiet [OF fb]
  let ?adj = "\<lambda>base. base - tcpaAdjust (tcpa a) - cpaAdjust (cpa a) + rangeAdjust (range_t a)"
  have oa: "order (evaluateAlarms a ps) = Some (?adj 10000)"
    unfolding a3 stampOrder using da by (simp add: a3f clamp_inactive)
  have ob: "order (evaluateAlarms b ps) = Some (?adj 30000) \<or>
            order (evaluateAlarms b ps) = Some (?adj 40000)"
    unfolding b3 stampOrder using qb by (auto simp add: b3f same [symmetric] clamp_inactive)
  have st: "alarmState (evaluateAlarms a ps) = Some Danger"
    unfolding a3 using da by (simp add: adjustOrder_fields setAlarmType_fields)
  from oa ob st show ?thesis by auto
qed

theorem alarmed_order_less_witness:
  "alarmState (evaluateAlarms ((newTarget ''970123456'')\<lparr>range_t := Some 1852\<rparr>) testProfiles)
     = Some Danger \<and>
   order (evaluateAlarms ((newTarget ''970123456'')\<lparr>range_t := Some 1852\<rparr>) testProfiles)
     = Some 10100 \<and>
   order (evaluateAlarms ((newTarget ''123456789'')\<lparr>range_t := Some 1852\<rparr>) testProfiles)
     = Some 40100"
  using alarmed_order_less [of testProfiles harbor "\<lparr>g_range = 1, g_speed = 0\<rparr>"
          "\<lparr>th_cpa = 0.1, th_tcpa = 300, th_speed = 3\<rparr>"
          "\<lparr>th_cpa = 0.5, th_tcpa = 600, th_speed = 0.5\<rparr>"
          "(newTarget ''970123456'')\<lparr>range_t := Some 1852\<rparr>"
          "(newTarget ''123456789'')\<lparr>range_t := Some 1852\<rparr>"]
  by (simp add: testProfiles_def harbor_def newTarget_def evaluateAlarms_def evaluateAlarms_try_def
        guardExpr_def collisionExpr_def speedGate_def startsWith_def setAlarmState_def
        setAlarmType_def adjustOrder_def isTrue_def tcpaAdjust_def cpaAdjust_def rangeAdjust_def
        METERS_PER_NM_def PRIORITY_ORDER_DANGER_def PRIORITY_ORDER_DIVERGING_def
        RANGE_WEIGHT_MAX_def RANGE_WEIGHT_PER_NM_def ORDER_MIN_def ORDER_MAX_def Let_def)

subsection \<open>Exceptions inside the classifier\<close>













subsection \<open>Closest point of approach\<close>

lemma fin_small: "\<bar>r\<bar> < OVERFLOW \<Longrightarrow> fin r = Fin r"
  by (auto simp add: fin_def)

lemma OVERFLOW_gt: "10 ^ 6 < OVERFLOW"
proof -
  have "(10::real) ^ 6 < 2 ^ 20" by simp
  also have "(2::real) ^ 20 \<le> 2 ^ 1024" by (rule power_increasing) simp_all
  finally show ?thesis by (simp only: OVERFLOW_def)
qed

lemma huge_lt_OVERFLOW: "(2::real) ^ 600 < OVERFLOW"
  unfolding OVERFLOW_def by (rule power_strict_increasing) simp_all

lemma huge_sq_overflows: "OVERFLOW \<le> (2::real) ^ 600 * 2 ^ 600"
proof -
  have "(2::real) ^ 600 * 2 ^ 600 = 2 ^ (600 + 600)" by (rule power_add [symmetric])
  moreover have "(2::real) ^ 1024 \<le> 2 ^ (600 + 600)" by (rule power_increasing) simp_all
  ultimately show ?thesis by (simp only: OVERFLOW_def)
qed

lemma tcpa_discard_iff:
  "(js_not tc \<or> js_less tc 0 \<or> js_greater tc TCPA_MAX_SECONDS) =
   (tc = Fin 0 \<or> js_less tc 0 \<or> \<not> Number_isFinite tc \<or> js_greater tc 10800)"
  by (cases tc) (auto simp add: TCPA_MAX_SECONDS_def)

lemma updateCpa_branches:
  assumes s: "x_t s = Some sx" "y_t s = Some sy" "vx s = Some svx" "vy s = Some svy"
    and t: "x_t t = Some tx" "y_t t = Some ty" "vx t = Some tvx" "vy t = Some tvy"
    and dv: "dvx = js_sub tvx svx" "dvy = js_sub tvy svy"
    and dv2: "dv2 = js_add (js_mul dvx dvx) (js_mul dvy dvy)"
    and tc: "tc = js_div (js_neg (js_add (js_mul (js_sub tx sx) dvx)
                                         (js_mul (js_sub ty sy) dvy))) dv2"
    and ex: "ex = js_sub (js_add sx (js_mul tc svx)) (js_add tx (js_mul tc tvx))"
    and ey: "ey = js_sub (js_add sy (js_mul tc svy)) (js_add ty (js_mul tc tvy))"
    and c: "c = js_sqrt (js_add (js_mul ex ex) (js_mul ey ey))"
  shows "updateCpa s t =
     (if js_less dv2 0.00000001 then t\<lparr>cpa := None, tcpa := None\<rparr>
      else if js_not tc \<or> js_less tc 0 \<or> js_greater tc TCPA_MAX_SECONDS
      then t\<lparr>cpa := None, tcpa := None\<rparr>
      else if \<not> Number_isFinite c \<or> \<not> Number_isFinite tc
      then t\<lparr>cpa := None, tcpa := None\<rparr>
      else t\<lparr>cpa := Some (of_int (round (finite_value c))),
              tcpa := Some (of_int (round (finite_value tc)))\<rparr>)"
proof -
  have d: "dot (js_sub tvx svx, js_sub tvy svy) (js_sub tvx svx, js_sub tvy svy) = dv2"
    by (simp add: dot_def dv dv2)
  have w: "js_div (js_neg (dot (js_sub tx sx, js_sub ty sy) (js_sub tvx svx, js_sub tvy svy))) dv2
             = tc"
    by (simp add: dot_def dv tc)
  have e: "dist_v (js_add sx (js_mul tc svx), js_add sy (js_mul tc svy))
                  (js_add tx (js_mul tc tvx), js_add ty (js_mul tc tvy)) = c"
    by (simp add: dist_v_def norm_v_def dot_def c ex ey)
  show ?thesis
    by (simp only: updateCpa_def Let_def s t option.sel option.distinct simp_thms if_False
          d w e)
qed

text \<open>
  Claim C1, as amended. For an own vessel and a target whose planar positions and
  velocities are all non-null, with \<open>dv\<close> the target velocity minus the own velocity,
  \<open>dv2 = dot dv dv\<close>, \<open>w0\<close> the target position minus the own position and
  \<open>tc = - dot w0 dv / dv2\<close>, every operation being the one of the code's numbers:
  \<^item> if \<open>dv2 < 1e-8\<close>, cpa and tcpa are null;
  \<^item> otherwise, if \<open>tc\<close> is zero, negative, non-finite or above 10800 s, both are null;
  \<^item> otherwise both positions are projected forward by \<open>tc\<close>, and if the distance \<open>c\<close>
    between the projected points is not finite, both are null;
  \<^item> otherwise cpa is \<open>c\<close> rounded to the nearest meter and tcpa is \<open>tc\<close> rounded to the
    nearest second.
\<close>

theorem updateCpa_spec:
  assumes s: "x_t s = Some sx" "y_t s = Some sy" "vx s = Some svx" "vy s = Some svy"
    and t: "x_t t = Some tx" "y_t t = Some ty" "vx t = Some tvx" "vy t = Some tvy"
    and dv: "dvx = js_sub tvx svx" "dvy = js_sub tvy svy"
    and dv2: "dv2 = js_add (js_mul dvx dvx) (js_mul dvy dvy)"
    and tc: "tc = js_div (js_neg (js_add (js_mul (js_sub tx sx) dvx)
                                         (js_mul (js_sub ty sy) dvy))) dv2"
    and ex: "ex = js_sub (js_add sx (js_mul tc svx)) (js_add tx (js_mul tc tvx))"
    and ey: "ey = js_sub (js_add sy (js_mul tc svy)) (js_add ty (js_mul tc tvy))"
    and c: "c = js_sqrt (js_add (js_mul ex ex) (js_mul ey ey))"
  shows "(js_less dv2 (1 / 10 ^ 8) \<longrightarrow>
            cpa (updateCpa s t) = None \<and> tcpa (updateCpa s t) = None) \<and>
         (\<not> js_less dv2 (1 / 10 ^ 8) \<and>
          (tc = Fin 0 \<or> js_less tc 0 \<or> \<not> Number_isFinite tc \<or> js_greater tc 10800) \<longrightarrow>
            cpa (updateCpa s t) = None \<and> tcpa (updateCpa s t) = None) \<and>
         (\<not> js_less dv2 (1 / 10 ^ 8) \<and>
          \<not> (tc = Fin 0 \<or> js_less tc 0 \<or> \<not> Number_isFinite tc \<or> js_greater tc 10800) \<and>
          \<not> Number_isFinite c \<longrightarrow>
            cpa (updateCpa s t) = None \<and> tcpa (updateCpa s t) = None) \<and>
         (\<not> js_less dv2 (1 / 10 ^ 8) \<and>
          \<not> (tc = Fin 0 \<or> js_less tc 0 \<or> \<not> Number_isFinite tc \<or> js_greater tc 10800) \<and>
          Number_isFinite c \<longrightarrow>
            cpa (updateCpa s t) = Some (of_int (round (finite_value c))) \<and>
            tcpa (updateCpa s t) = Some (of_int (round (finite_value tc))))"
  unfolding updateCpa_branches [OF assms] tcpa_discard_iff by simp

theorem updateCpa_spec_witness:
  "cpa (updateCpa ownShip crossingTarget) = Some 30 \<and>
   tcpa (updateCpa ownShip crossingTarget) = Some 100"
proof -
  have r: "sqrt 900 = 30" using real_sqrt_abs [of 30] by simp
  have f: "\<And>r::real. \<bar>r\<bar> < 10 ^ 6 \<Longrightarrow> fin r = Fin r"
    using OVERFLOW_gt by (intro fin_small) linarith
  have f': "fin 0 = Fin 0" "fin 1 = Fin 1" "fin (- 1) = Fin (- 1)" "fin 30 = Fin 30"
    "fin (- 30) = Fin (- 30)" "fin 100 = Fin 100" "fin (- 100) = Fin (- 100)"
    "fin 900 = Fin 900"
    by (rule f, simp)+
  have s: "x_t ownShip = Some (Fin 0)" "y_t ownShip = Some (Fin 0)"
          "vx ownShip = Some (Fin 0)" "vy ownShip = Some (Fin 0)"
    by (simp_all add: ownShip_def)
  have t: "x_t crossingTarget = Some (Fin 30)" "y_t crossingTarget = Some (Fin 100)"
          "vx crossingTarget = Some (Fin 0)" "vy crossingTarget = Some (Fin (- 1))"
    by (simp_all add: crossingTarget_def)
  have dvx: "Fin 0 = js_sub (Fin 0) (Fin 0)" by (simp add: js_sub_def f')
  have dvy: "Fin (- 1) = js_sub (Fin (- 1)) (Fin 0)" by (simp add: js_sub_def f')
  have dv2: "Fin 1 = js_add (js_mul (Fin 0) (Fin 0)) (js_mul (Fin (- 1)) (Fin (- 1)))"
    by (simp add: f')
  have tc: "Fin 100 = js_div (js_neg (js_add (js_mul (js_sub (Fin 30) (Fin 0)) (Fin 0))
                                   (js_mul (js_sub (Fin 100) (Fin 0)) (Fin (- 1))))) (Fin 1)"
    by (simp add: js_sub_def f')
  have ex: "Fin (- 30) = js_sub (js_add (Fin 0) (js_mul (Fin 100) (Fin 0)))
                                (js_add (Fin 30) (js_mul (Fin 100) (Fin 0)))"
    by (simp add: js_sub_def f')
  have ey: "Fin 0 = js_sub (js_add (Fin 0) (js_mul (Fin 100) (Fin 0)))
                           (js_add (Fin 100) (js_mul (Fin 100) (Fin (- 1))))"
    by (simp add: js_sub_def f')
  have c: "Fin 30 = js_sqrt (js_add (js_mul (Fin (- 30)) (Fin (- 30))) (js_mul (Fin 0) (Fin 0)))"
    by (simp add: f' r)
  from updateCpa_spec [OF s t dvx dvy dv2 tc ex ey c]
  show ?thesis by simp
qed


text \<open>
  Claim C1 as stated fails. The own vessel rests at the origin; the target is at
  \<open>x = 2^600\<close>, \<open>y = 100\<close> and moves south at 1 m/s. Then \<open>dot dv dv = 1\<close> and the time
  to the closest approach is 100 s: positive, finite and within the horizon. The square
  of the projected distance, \<open>2^1200\<close>, overflows to infinity, the guard
  \<^verbatim>\<open>Number.isFinite\<close> fails and cpa and tcpa are both null, where the claim has the
  rounded distance and 100.
\<close>

theorem cpa_overflow_discards_solution:
  "x_t ownShip = Some (Fin 0) \<and> y_t ownShip = Some (Fin 0) \<and>
   vx ownShip = Some (Fin 0) \<and> vy ownShip = Some (Fin 0) \<and>
   x_t farTarget = Some (Fin (2 ^ 600)) \<and> y_t farTarget = Some (Fin 100) \<and>
   vx farTarget = Some (Fin 0) \<and> vy farTarget = Some (Fin (- 1)) \<and>
   dot (Fin 0, Fin (- 1)) (Fin 0, Fin (- 1)) = Fin 1 \<and>
   js_div (js_neg (dot (Fin (2 ^ 600), Fin 100) (Fin 0, Fin (- 1)))) (Fin 1) = Fin 100 \<and>
   cpa (updateCpa ownShip farTarget) = None \<and> tcpa (updateCpa ownShip farTarget) = None"
proof -
  define H :: real where "H = 2 ^ 600"
  have Hpos: "0 < H" by (simp add: H_def)
  have Hlt: "H < OVERFLOW" unfolding H_def by (rule huge_lt_OVERFLOW)
  have Hsq: "OVERFLOW \<le> H * H" unfolding H_def by (rule huge_sq_overflows)
  have f: "\<And>r::real. \<bar>r\<bar> < 10 ^ 6 \<Longrightarrow> fin r = Fin r"
    using OVERFLOW_gt by (intro fin_small) linarith
  have f': "fin 0 = Fin 0" "fin 1 = Fin 1" "fin (- 1) = Fin (- 1)"
    "fin 100 = Fin 100" "fin (- 100) = Fin (- 100)"
    by (rule f, simp)+
  have fH: "fin H = Fin H" "fin (- H) = Fin (- H)"
    using Hpos Hlt by (simp_all add: fin_small)
  have fHH: "fin (H * H) = PInf" using Hsq by (simp add: fin_def)
  have s: "x_t ownShip = Some (Fin 0)" "y_t ownShip = Some (Fin 0)"
          "vx ownShip = Some (Fin 0)" "vy ownShip = Some (Fin 0)"
    by (simp_all add: ownShip_def)
  have t: "x_t farTarget = Some (Fin H)" "y_t farTarget = Some (Fin 100)"
          "vx farTarget = Some (Fin 0)" "vy farTarget = Some (Fin (- 1))"
    by (simp_all add: farTarget_def H_def)
  have dvx: "Fin 0 = js_sub (Fin 0) (Fin 0)" by (simp add: js_sub_def f')
  have dvy: "Fin (- 1) = js_sub (Fin (- 1)) (Fin 0)" by (simp add: js_sub_def f')
  have dv2: "Fin 1 = js_add (js_mul (Fin 0) (Fin 0)) (js_mul (Fin (- 1)) (Fin (- 1)))"
    by (simp add: f')
  have tc: "Fin 100 = js_div (js_neg (js_add (js_mul (js_sub (Fin H) (Fin 0)) (Fin 0))
                                   (js_mul (js_sub (Fin 100) (Fin 0)) (Fin (- 1))))) (Fin 1)"
    by (simp add: js_sub_def f' fH)
  have ex: "Fin (- H) = js_sub (js_add (Fin 0) (js_mul (Fin 100) (Fin 0)))
                               (js_add (Fin H) (js_mul (Fin 100) (Fin 0)))"
    by (simp add: js_sub_def f' fH)
  have ey: "Fin 0 = js_sub (js_add (Fin 0) (js_mul (Fin 100) (Fin 0)))
                           (js_add (Fin 100) (js_mul (Fin 100) (Fin (- 1))))"
    by (simp add: js_sub_def f')
  have c: "PInf = js_sqrt (js_add (js_mul (Fin (- H)) (Fin (- H))) (js_mul (Fin 0) (Fin 0)))"
    by (simp add: f' fHH)
  have u: "cpa (updateCpa ownShip farTarget) = None \<and> tcpa (updateCpa ownShip farTarget) = None"
    unfolding updateCpa_branches [OF s t dvx dvy dv2 tc ex ey c]
    by (simp add: TCPA_MAX_SECONDS_def)
  have d1: "dot (Fin 0, Fin (- 1)) (Fin 0, Fin (- 1)) = Fin 1"
    by (simp add: dot_def f')
  have d2: "js_div (js_neg (dot (Fin H, Fin 100) (Fin 0, Fin (- 1)))) (Fin 1) = Fin 100"
    by (simp add: dot_def f')
  show ?thesis
    using s t [unfolded H_def] u [THEN conjunct1] u [THEN conjunct2] d1 d2 [unfolded H_def]
    by (intro conjI)
qed

subsection \<open>What each stage leaves alone\<close>

lemma adjustOrder_static:
  "beam (adjustOrder t) = beam t"
  "length_t (adjustOrder t) = length_t t"
  "imo (adjustOrder t) = imo t"
  "isValid (adjustOrder t) = isValid t"
  by (simp_all add: adjustOrder_def Let_def split: option.splits)

lemma setAlarmType_static:
  "beam (setAlarmType t) = beam t"
  "length_t (setAlarmType t) = length_t t"
  "imo (setAlarmType t) = imo t"
  "isValid (setAlarmType t) = isValid t"
  by (simp_all add: setAlarmType_def Let_def)

lemma setAlarmState_static:
  "beam (setAlarmState t) = beam t"
  "length_t (setAlarmState t) = length_t t"
  "imo (setAlarmState t) = imo t"
  "isValid (setAlarmState t) = isValid t"
  by (simp_all add: setAlarmState_def)

lemma evaluateAlarms_keeps:
  "range_t (evaluateAlarms t ps) = range_t t \<and>
   bearing (evaluateAlarms t ps) = bearing t \<and>
   latitude (evaluateAlarms t ps) = latitude t \<and>
   longitude (evaluateAlarms t ps) = longitude t \<and>
   lastSeenDate (evaluateAlarms t ps) = lastSeenDate t \<and>
   cpa (evaluateAlarms t ps) = cpa t \<and>
   tcpa (evaluateAlarms t ps) = tcpa t \<and>
   beam (evaluateAlarms t ps) = beam t \<and>
   length_t (evaluateAlarms t ps) = length_t t \<and>
   imo (evaluateAlarms t ps) = imo t \<and>
   isValid (evaluateAlarms t ps) = isValid t"
proof -
  from evaluateAlarms_try_cases [of t ps]
  consider (first) e1 where "evaluateAlarms_try t ps = (Some e1, t)"
    | (second) e2 g where "evaluateAlarms_try t ps = (Some e2, t\<lparr>guardAlarm := Some g\<rparr>)"
    | (third) e3 g c where
        "evaluateAlarms_try t ps = (Some e3, t\<lparr>guardAlarm := Some g, collisionAlarm := Some c\<rparr>)"
    | (completed) g c w where
        "evaluateAlarms_try t ps =
          (None, adjustOrder (setAlarmType (setAlarmState
             (t\<lparr>guardAlarm := Some g, collisionAlarm := Some c, collisionWarning := Some w,
                sartAlarm := Some (startsWith (mmsi t) ''970''),
                mobAlarm := Some (startsWith (mmsi t) ''972''),
                epirbAlarm := Some (startsWith (mmsi t) ''974'')\<rparr>))))"
    by blast
  then show ?thesis
  proof cases
    case first
    then show ?thesis by (simp add: evaluateAlarms_def)
  next
    case second
    then show ?thesis by (simp add: evaluateAlarms_def)
  next
    case third
    then show ?thesis by (simp add: evaluateAlarms_def)
  next
    case completed
    then show ?thesis
      by (simp add: evaluateAlarms_def adjustOrder_fields setAlarmType_fields setAlarmState_fields
            adjustOrder_static setAlarmType_static setAlarmState_static)
  qed
qed

lemma updateCpa_keeps:
  "range_t (updateCpa s t) = range_t t"
  "bearing (updateCpa s t) = bearing t"
  "latitude (updateCpa s t) = latitude t"
  "longitude (updateCpa s t) = longitude t"
  "lastSeenDate (updateCpa s t) = lastSeenDate t"
  "beam (updateCpa s t) = beam t"
  "length_t (updateCpa s t) = length_t t"
  "imo (updateCpa s t) = imo t"
  "isValid (updateCpa s t) = isValid t"
  by (simp_all add: updateCpa_def Let_def)

lemma calculateRangeAndBearing_keeps:
  "latitude (calculateRangeAndBearing s t) = latitude t"
  "longitude (calculateRangeAndBearing s t) = longitude t"
  "lastSeenDate (calculateRangeAndBearing s t) = lastSeenDate t"
  "beam (calculateRangeAndBearing s t) = beam t"
  "length_t (calculateRangeAndBearing s t) = length_t t"
  "imo (calculateRangeAndBearing s t) = imo t"
  "isValid (calculateRangeAndBearing s t) = isValid t"
  by (simp_all add: calculateRangeAndBearing_def Let_def)

lemma calculateRangeAndBearing_null_iff:
  "(range_t (calculateRangeAndBearing s t) \<noteq> None) =
     (latitude s \<noteq> None \<and> longitude s \<noteq> None \<and> latitude t \<noteq> None \<and> longitude t \<noteq> None)"
  "(bearing (calculateRangeAndBearing s t) \<noteq> None) =
     (latitude s \<noteq> None \<and> longitude s \<noteq> None \<and> latitude t \<noteq> None \<and> longitude t \<noteq> None)"
  by (simp_all add: calculateRangeAndBearing_def Let_def)

lemma calculateRangeAndBearing_planar [simp]:
  "calculateRangeAndBearing s (t\<lparr>y_t := a, x_t := b, vy := c, vx := d\<rparr>) =
     (calculateRangeAndBearing s t)\<lparr>y_t := a, x_t := b, vy := c, vx := d\<rparr>"
  by (simp add: calculateRangeAndBearing_def Let_def)

text \<open>
  A time to the closest approach that \<open>updateCpa\<close> stores is at most the horizon, so its
  display string can be formatted.
\<close>

lemma updateCpa_tcpa_formats: "\<not> formatTcpaThrows (tcpa (updateCpa s t))"
proof -
  have b: "\<not> formatTcpaThrows (Some (of_int (round (finite_value tc))))"
    if "\<not> js_greater tc TCPA_MAX_SECONDS" "Number_isFinite tc" for tc
  proof (cases tc)
    case (Fin r)
    with that(1) have "r \<le> 10800" by (simp add: TCPA_MAX_SECONDS_def)
    then have "round r \<le> 10800" by (intro round_le_of_int) simp
    then have "(of_int (round r) :: real) \<le> 10800" by linarith
    then have "1000 * \<bar>of_int (round r) :: real\<bar> \<le> 8640000000000000 \<or>
               (of_int (round r) :: real) < 0"
      by linarith
    then show ?thesis by (auto simp add: formatTcpaThrows_def Fin)
  qed (use that(2) in simp_all)
  show ?thesis
    by (simp add: updateCpa_def Let_def formatTcpaThrows_def [of None] b)
qed

text \<open>
  The per-target update, field by field. The validity flag is assigned when the display
  strings were formatted and left as it was when one of them threw. For a target that
  is not the own vessel the time to the closest approach was just computed, so only the
  size and the IMO number can throw; for the own vessel the fields are as the caller
  left them.
\<close>

lemma usd_facts:
  shows usd_throws:
      "fst (updateSingleTargetDerivedData_run t s ps maxAge now) =
         (if mmsi t \<noteq> mmsi s
          then (if toFixedThrows (length_t t) \<or> toFixedThrows (beam t) \<or> replaceThrows (imo t)
                then Some TypeError else None)
          else formatThrows t)"
    and usd_lastSeen:
      "lastSeen (updateSingleTargetDerivedData t s ps maxAge now) =
         Some (age (lastSeenDate t) now)"
    and usd_latitude:
      "latitude (updateSingleTargetDerivedData t s ps maxAge now) = latitude t"
    and usd_longitude:
      "longitude (updateSingleTargetDerivedData t s ps maxAge now) = longitude t"
    and usd_valid:
      "isValid (updateSingleTargetDerivedData t s ps maxAge now) =
         (if fst (updateSingleTargetDerivedData_run t s ps maxAge now) = None
          then Some (\<not> (latitude t = None \<or> longitude t = None \<or>
                         js_greater (age (lastSeenDate t) now) maxAge))
          else isValid t)"
    and usd_range:
      "mmsi t \<noteq> mmsi s \<Longrightarrow>
         range_t (updateSingleTargetDerivedData t s ps maxAge now) =
           range_t (calculateRangeAndBearing s t)"
    and usd_bearing:
      "mmsi t \<noteq> mmsi s \<Longrightarrow>
         bearing (updateSingleTargetDerivedData t s ps maxAge now) =
           bearing (calculateRangeAndBearing s t)"
proof -
  define t1 where
    "t1 = t\<lparr>y_t := Some (js_mul (Fin (nullish (latitude t) 0)) (Fin 111120)),
            x_t := Some (js_mul (js_mul (Fin (nullish (longitude t) 0)) (Fin 111120))
                     (Fin (cos (toRadians (max (- 89.9) (min 89.9 (nullish (latitude s) 0))))))),
            vy := Some (js_mul (Fin (nullish (sog t) 0)) (Fin (cos (nullish (cog t) 0)))),
            vx := Some (js_mul (Fin (nullish (sog t) 0)) (Fin (sin (nullish (cog t) 0))))\<rparr>"
  define t2 where
    "t2 = (if mmsi t1 \<noteq> mmsi s
           then evaluateAlarms (updateCpa s (calculateRangeAndBearing s t1)) ps
           else t1)"
  define t3 where
    "t3 = t2\<lparr>lastSeen := Some (age (lastSeenDate t2) now),
             isLost := Some (js_greater (age (lastSeenDate t2) now) LOST_TARGET_WARNING_AGE)\<rparr>"
  have run: "updateSingleTargetDerivedData_run t s ps maxAge now =
               (case formatThrows t3 of
                  Some e \<Rightarrow> (Some e, t3)
                | None \<Rightarrow>
                    (None,
                     if latitude t3 = None \<or> longitude t3 = None \<or>
                        js_greater (age (lastSeenDate t2) now) maxAge
                     then t3\<lparr>isValid := Some False\<rparr>
                     else t3\<lparr>isValid := Some True\<rparr>))"
    unfolding updateSingleTargetDerivedData_run_def Let_def t3_def t2_def t1_def ..
  have f1: "latitude t1 = latitude t" "longitude t1 = longitude t"
    "lastSeenDate t1 = lastSeenDate t" "beam t1 = beam t" "length_t t1 = length_t t"
    "imo t1 = imo t" "isValid t1 = isValid t" "mmsi t1 = mmsi t" "tcpa t1 = tcpa t"
    by (simp_all add: t1_def)
  have c1: "calculateRangeAndBearing s t1 =
              (calculateRangeAndBearing s t)\<lparr>y_t := y_t t1, x_t := x_t t1,
                                              vy := vy t1, vx := vx t1\<rparr>"
    by (simp add: t1_def)
  have f2: "latitude t2 = latitude t" "longitude t2 = longitude t"
    "lastSeenDate t2 = lastSeenDate t" "beam t2 = beam t" "length_t t2 = length_t t"
    "imo t2 = imo t" "isValid t2 = isValid t"
    by (simp_all add: t2_def f1 evaluateAlarms_keeps updateCpa_keeps
          calculateRangeAndBearing_keeps del: calculateRangeAndBearing_planar)
  have r2: "range_t t2 = range_t (calculateRangeAndBearing s t)"
           "bearing t2 = bearing (calculateRangeAndBearing s t)"
    if "mmsi t \<noteq> mmsi s"
    using that by (simp_all add: t2_def f1 evaluateAlarms_keeps updateCpa_keeps c1
          del: calculateRangeAndBearing_planar)
  have tc2: "\<not> formatTcpaThrows (tcpa t2)" if "mmsi t \<noteq> mmsi s"
    using that updateCpa_tcpa_formats [of s "calculateRangeAndBearing s t1"]
    by (simp add: t2_def f1 evaluateAlarms_keeps del: calculateRangeAndBearing_planar)
  have tc2': "tcpa t2 = tcpa t" if "mmsi t = mmsi s"
    using that by (simp add: t2_def f1)
  have f3: "lastSeen t3 = Some (age (lastSeenDate t) now)"
    "latitude t3 = latitude t" "longitude t3 = longitude t"
    "beam t3 = beam t" "length_t t3 = length_t t" "imo t3 = imo t" "isValid t3 = isValid t"
    "range_t t3 = range_t t2" "bearing t3 = bearing t2" "tcpa t3 = tcpa t2"
    by (simp_all add: t3_def f2)
  have run': "updateSingleTargetDerivedData_run t s ps maxAge now =
           (formatThrows t3,
            if formatThrows t3 = None
            then t3\<lparr>isValid := Some (\<not> (latitude t = None \<or> longitude t = None \<or>
                                         js_greater (age (lastSeenDate t) now) maxAge))\<rparr>
            else t3)"
    unfolding run f3 f2 by (cases "formatThrows t3") simp_all
  have fs: "fst (updateSingleTargetDerivedData_run t s ps maxAge now) = formatThrows t3"
    by (simp add: run')
  have sn: "updateSingleTargetDerivedData t s ps maxAge now =
              (if formatThrows t3 = None
               then t3\<lparr>isValid := Some (\<not> (latitude t = None \<or> longitude t = None \<or>
                                            js_greater (age (lastSeenDate t) now) maxAge))\<rparr>
               else t3)"
    by (simp add: updateSingleTargetDerivedData_def run')
  have ft: "formatThrows t3 =
         (if mmsi t \<noteq> mmsi s
          then (if toFixedThrows (length_t t) \<or> toFixedThrows (beam t) \<or> replaceThrows (imo t)
                then Some TypeError else None)
          else formatThrows t)"
  proof (cases "mmsi t = mmsi s")
    case True
    then show ?thesis using tc2' [OF True] by (simp add: formatThrows_def f3)
  next
    case False
    then show ?thesis using tc2 [OF False] by (simp add: formatThrows_def f3)
  qed
  show "fst (updateSingleTargetDerivedData_run t s ps maxAge now) =
         (if mmsi t \<noteq> mmsi s
          then (if toFixedThrows (length_t t) \<or> toFixedThrows (beam t) \<or> replaceThrows (imo t)
                then Some TypeError else None)
          else formatThrows t)"
    unfolding fs by (rule ft)
  show "lastSeen (updateSingleTargetDerivedData t s ps maxAge now) =
         Some (age (lastSeenDate t) now)"
    by (simp add: sn f3)
  show "latitude (updateSingleTargetDerivedData t s ps maxAge now) = latitude t"
    by (simp add: sn f3)
  show "longitude (updateSingleTargetDerivedData t s ps maxAge now) = longitude t"
    by (simp add: sn f3)
  show "isValid (updateSingleTargetDerivedData t s ps maxAge now) =
         (if fst (updateSingleTargetDerivedData_run t s ps maxAge now) = None
          then Some (\<not> (latitude t = None \<or> longitude t = None \<or>
                         js_greater (age (lastSeenDate t) now) maxAge))
          else isValid t)"
    unfolding fs by (simp add: sn f3)
  show "range_t (updateSingleTargetDerivedData t s ps maxAge now) =
           range_t (calculateRangeAndBearing s t)" if "mmsi t \<noteq> mmsi s"
    using r2 [OF that] by (simp add: sn f3)
  show "bearing (updateSingleTargetDerivedData t s ps maxAge now) =
           bearing (calculateRangeAndBearing s t)" if "mmsi t \<noteq> mmsi s"
    using r2 [OF that] by (simp add: sn f3)
qed

subsection \<open>Known and unknown positions\<close>

text \<open>
  Claim C9. For an own vessel and a target with a different id, after the per-target
  update the range is non-null exactly when the four coordinates (own and target
  latitude and longitude) are all non-null, and so is the bearing. A coordinate of zero
  is a coordinate: the witness is a target at latitude 0, longitude 0, next to a target
  without a position.
\<close>

theorem range_bearing_known_iff:
  assumes "mmsi t \<noteq> mmsi s"
  shows "(range_t (updateSingleTargetDerivedData t s ps maxAge now) \<noteq> None \<longleftrightarrow>
            latitude s \<noteq> None \<and> longitude s \<noteq> None \<and>
            latitude t \<noteq> None \<and> longitude t \<noteq> None) \<and>
         (bearing (updateSingleTargetDerivedData t s ps maxAge now) \<noteq> None \<longleftrightarrow>
            latitude s \<noteq> None \<and> longitude s \<noteq> None \<and>
            latitude t \<noteq> None \<and> longitude t \<noteq> None)"
  unfolding usd_range [OF assms] usd_bearing [OF assms] calculateRangeAndBearing_null_iff
  by simp

theorem range_bearing_known_iff_witness:
  "range_t (updateSingleTargetDerivedData equatorTarget fixedSelf testProfiles 1800 0) \<noteq> None \<and>
   bearing (updateSingleTargetDerivedData equatorTarget fixedSelf testProfiles 1800 0) \<noteq> None \<and>
   range_t (updateSingleTargetDerivedData (newTarget ''123456789'') fixedSelf testProfiles 1800 0)
     = None \<and>
   bearing (updateSingleTargetDerivedData (newTarget ''123456789'') fixedSelf testProfiles 1800 0)
     = None"
  using range_bearing_known_iff [of equatorTarget fixedSelf testProfiles 1800 0]
        range_bearing_known_iff [of "newTarget ''123456789''" fixedSelf testProfiles 1800 0]
  by (simp add: equatorTarget_def fixedSelf_def newTarget_def)

subsection \<open>Stale targets\<close>




subsection \<open>Bearing\<close>

lemma tan_pos_lat:
  assumes "- 90 < lat" "lat < 90"
  shows "0 < tan (toRadians lat / 2 + pi / 4)"
proof -
  have e: "toRadians lat / 2 + pi / 4 = (lat + 90) * (pi / 360)"
    by (simp add: toRadians_def field_simps)
  have lo: "0 < (lat + 90) * (pi / 360)" using assms by simp
  have "(lat + 90) * (pi / 360) < 180 * (pi / 360)"
    using assms by (intro mult_strict_right_mono) simp_all
  then have hi: "(lat + 90) * (pi / 360) < pi / 2" by simp
  show ?thesis unfolding e using lo hi by (rule tan_gt_zero)
qed


text \<open>
  The tangent of the rhumb-line formula at a latitude in \<open>[-90, 90]\<close>: zero at -90,
  positive above, and the large value of \<^verbatim>\<open>Math.tan\<close> at 90.
\<close>

lemma rhumb_arg: "toRadians lat / 2 + pi / 4 = (lat + 90) * (pi / 360)"
  by (simp add: toRadians_def field_simps)

lemma rhumb_arg_pole: "toRadians lat / 2 + pi / 4 = pi / 2 \<longleftrightarrow> lat = 90"
proof -
  have "(lat + 90) * (pi / 360) = 180 * (pi / 360) \<longleftrightarrow> lat + 90 = 180"
    using pi_gt_zero by (subst mult_cancel_right) simp
  then show ?thesis unfolding rhumb_arg by simp
qed

lemma js_tan_lat:
  assumes "- 90 \<le> lat" "lat \<le> 90"
  shows "0 \<le> js_tan (toRadians lat / 2 + pi / 4)"
    and "js_tan (toRadians lat / 2 + pi / 4) = 0 \<longleftrightarrow> lat = - 90"
proof -
  consider (south) "lat = - 90" | (north) "lat = 90" | (between) "- 90 < lat" "lat < 90"
    using assms by linarith
  then have "0 \<le> js_tan (toRadians lat / 2 + pi / 4) \<and>
             (js_tan (toRadians lat / 2 + pi / 4) = 0 \<longleftrightarrow> lat = - 90)"
  proof cases
    case south
    have "toRadians (- 90) / 2 + pi / 4 = 0" by (simp add: toRadians_def)
    then show ?thesis using south pi_gt_zero by (simp add: js_tan_def)
  next
    case north
    then have "toRadians lat / 2 + pi / 4 = pi / 2" unfolding rhumb_arg_pole .
    then show ?thesis using north by (simp add: js_tan_def TAN_HALF_PI_def)
  next
    case between
    then have "lat \<noteq> 90" by simp
    then have ne: "toRadians lat / 2 + pi / 4 \<noteq> pi / 2" unfolding rhumb_arg_pole .
    have "js_tan (toRadians lat / 2 + pi / 4) = tan (toRadians lat / 2 + pi / 4)"
      by (simp only: js_tan_def ne if_False)
    then show ?thesis using tan_pos_lat [OF between] between by simp
  qed
  then show "0 \<le> js_tan (toRadians lat / 2 + pi / 4)"
    and "js_tan (toRadians lat / 2 + pi / 4) = 0 \<longleftrightarrow> lat = - 90"
    by simp_all
qed

lemma OVERFLOW_pos: "0 < OVERFLOW"
  by (simp add: OVERFLOW_def)

lemma rhumb_phi_defined:
  assumes "0 \<le> a" "0 \<le> b" "\<not> (a = 0 \<and> b = 0)"
  shows "js_log (js_div (Fin a) (Fin b)) \<noteq> NaN"
proof (cases "b = 0")
  case True
  then have "0 < a" using assms by simp
  then show ?thesis using True by simp
next
  case False
  then have q: "0 \<le> a / b" using assms by simp
  then have n: "\<not> a / b \<le> - OVERFLOW" using OVERFLOW_pos by linarith
  show ?thesis
  proof (cases "OVERFLOW \<le> a / b")
    case True
    then show ?thesis using False by (simp add: fin_def)
  next
    case over: False
    then have "js_div (Fin a) (Fin b) = Fin (a / b)" using False n by (simp add: fin_def)
    then show ?thesis using q by simp
  qed
qed

lemma atan2_bounds: "- pi \<le> atan2 b a \<and> atan2 b a \<le> pi"
proof -
  have l: "- (pi / 2) < arctan (b / a)" by (rule arctan_lbound)
  have u: "arctan (b / a) < pi / 2" by (rule arctan_ubound)
  consider (pos) "a > 0" | (negnn) "a < 0" "b \<ge> 0" | (negneg) "a < 0" "b < 0" | (zero) "a = 0"
    by linarith
  then show ?thesis
  proof cases
    case pos
    have "- pi \<le> arctan (b / a)" using l pi_gt_zero by linarith
    moreover have "arctan (b / a) \<le> pi" using u pi_gt_zero by linarith
    ultimately show ?thesis using pos by (simp add: atan2_def)
  next
    case negnn
    then have "b / a \<le> 0" by (simp add: divide_nonneg_neg)
    then have "arctan (b / a) \<le> 0" by simp
    then have hi: "arctan (b / a) + pi \<le> pi" by linarith
    have lo: "- pi \<le> arctan (b / a) + pi" using l pi_gt_zero by linarith
    from negnn lo hi show ?thesis by (simp add: atan2_def)
  next
    case negneg
    then have "0 < b / a" by (simp add: divide_neg_neg)
    then have "0 < arctan (b / a)" by simp
    then have lo: "- pi \<le> arctan (b / a) - pi" by linarith
    have hi: "arctan (b / a) - pi \<le> pi" using u pi_gt_zero by linarith
    from negneg lo hi show ?thesis by (simp add: atan2_def)
  next
    case zero
    show ?thesis
    proof (cases "b > 0")
      case True
      with zero have "atan2 b a = pi / 2" by (simp add: atan2_def)
      then show ?thesis using pi_gt_zero by linarith
    next
      case nonpos: False
      show ?thesis
      proof (cases "b < 0")
        case True
        with zero have "atan2 b a = - (pi / 2)" by (simp add: atan2_def)
        then show ?thesis using pi_gt_zero by linarith
      next
        case False
        with zero nonpos have "atan2 b a = 0" by (simp add: atan2_def)
        then show ?thesis using pi_gt_zero by linarith
      qed
    qed
  qed
qed


lemma js_atan2_bounds:
  assumes "v \<noteq> NaN"
  shows "\<exists>w. js_atan2 d v = Fin w \<and> - pi \<le> w \<and> w \<le> pi"
proof (cases v)
  case (Fin a)
  then show ?thesis using atan2_bounds [of d a] by simp
next
  case PInf
  then show ?thesis using pi_ge_zero by simp
next
  case NInf
  then show ?thesis using pi_ge_zero by simp
next
  case NaN
  then show ?thesis using assms by simp
qed

lemma toDegrees_bounds:
  assumes "- pi \<le> v" "v \<le> pi"
  shows "- 180 \<le> toDegrees v \<and> toDegrees v \<le> 180"
proof -
  have "v * 180 / pi \<le> 180" using assms pi_gt_zero by (simp add: pos_divide_le_eq)
  moreover have "- 180 \<le> v * 180 / pi" using assms pi_gt_zero by (simp add: pos_le_divide_eq)
  ultimately show ?thesis by (simp add: toDegrees_def)
qed

lemma rem360_bounds:
  assumes "0 \<le> a"
  shows "0 \<le> a - 360 * of_int (trunc (a / 360)) \<and> a - 360 * of_int (trunc (a / 360)) < 360"
proof -
  have q: "0 \<le> a / 360" using assms by simp
  then have t: "trunc (a / 360) = \<lfloor>a / 360\<rfloor>" by (simp add: trunc_def)
  have "of_int \<lfloor>a / 360\<rfloor> \<le> a / 360" by (rule of_int_floor_le)
  moreover have "a / 360 < of_int \<lfloor>a / 360\<rfloor> + 1" by linarith
  ultimately show ?thesis unfolding t by (simp add: field_simps)
qed


lemma getRhumbLineBearing_normalized:
  assumes "- 90 \<le> lat1" "lat1 \<le> 90" "- 90 \<le> lat2" "lat2 \<le> 90"
    and "\<not> (lat1 = - 90 \<and> lat2 = - 90)"
  shows "\<exists>v. getRhumbLineBearing lat1 lon1 lat2 lon2 = Fin v \<and> 0 \<le> v \<and> v < 360"
proof -
  let ?t1 = "js_tan (toRadians lat1 / 2 + pi / 4)"
  let ?t2 = "js_tan (toRadians lat2 / 2 + pi / 4)"
  have "\<not> (?t2 = 0 \<and> ?t1 = 0)"
    using assms(5) js_tan_lat(2) [OF assms(1,2)] js_tan_lat(2) [OF assms(3,4)] by blast
  then have lg: "js_log (js_div (Fin ?t2) (Fin ?t1)) \<noteq> NaN"
    using js_tan_lat(1) [OF assms(3,4)] js_tan_lat(1) [OF assms(1,2)]
    by (intro rhumb_phi_defined)
  obtain dl :: real where
    r: "getRhumbLineBearing lat1 lon1 lat2 lon2 =
          js_rem (js_plus (toDegrees_js (js_atan2 dl (js_log (js_div (Fin ?t2) (Fin ?t1))))) 360)
                 360"
    unfolding getRhumbLineBearing_def Let_def by blast
  from js_atan2_bounds [OF lg, of dl] obtain w where
    w: "js_atan2 dl (js_log (js_div (Fin ?t2) (Fin ?t1))) = Fin w" "- pi \<le> w" "w \<le> pi"
    by blast
  have "0 \<le> toDegrees w + 360" using toDegrees_bounds [OF w(2,3)] by simp
  from rem360_bounds [OF this] show ?thesis unfolding r w(1) by simp
qed

lemma getRhumbLineBearing_south_poles: "getRhumbLineBearing (- 90) lon1 (- 90) lon2 = NaN"
proof -
  have z: "js_tan (toRadians (- 90) / 2 + pi / 4) = 0"
    using js_tan_lat(2) [of "- 90"] by simp
  show ?thesis unfolding getRhumbLineBearing_def Let_def z by simp
qed

lemma fold360:
  assumes "0 \<le> v" "v < 360"
  shows "\<exists>k::int. (if js_greater_eq (js_round (Fin v)) 360 then Fin 0 else js_round (Fin v))
                     = Fin (of_int k) \<and> 0 \<le> k \<and> k < 360"
proof -
  have "round (of_int 0 :: real) \<le> round v" using assms(1) by (intro round_mono) simp
  then have lo: "0 \<le> round v" by simp
  show ?thesis
  proof (cases "(360::real) \<le> of_int (round v)")
    case True
    then have "(if js_greater_eq (js_round (Fin v)) 360 then Fin 0 else js_round (Fin v))
                 = Fin (of_int 0)" by simp
    then show ?thesis by (intro exI [of _ 0]) simp
  next
    case False
    then have "round v < 360" by linarith
    moreover from False
    have "(if js_greater_eq (js_round (Fin v)) 360 then Fin 0 else js_round (Fin v))
                 = Fin (of_int (round v))" by simp
    ultimately show ?thesis using lo by (intro exI [of _ "round v"]) simp
  qed
qed


text \<open>
  Claim C8, as amended. For an own vessel and a target with known positions whose
  latitudes both lie in \<open>[-90, 90]\<close>, the poles included: unless both are at the south
  pole, the bearing stored on the target is an integer from 0 to 359 (the rhumb-line
  bearing is normalized into \<open>[0, 360)\<close>, rounded, and a rounded value of 360 is folded to
  0); when both latitudes are exactly -90 the quotient of the two tangents is \<open>0 / 0\<close>
  and the stored bearing is \<open>NaN\<close>.
\<close>

theorem bearing_in_range:
  assumes "mmsi t \<noteq> mmsi s"
    and "latitude s = Some slat" "longitude s = Some slon"
    and "latitude t = Some tlat" "longitude t = Some tlon"
    and "- 90 \<le> slat" "slat \<le> 90" "- 90 \<le> tlat" "tlat \<le> 90"
  shows "(\<not> (slat = - 90 \<and> tlat = - 90) \<longrightarrow>
            (\<exists>k::int. bearing (updateSingleTargetDerivedData t s ps maxAge now)
                         = Some (Fin (of_int k)) \<and> 0 \<le> k \<and> k < 360)) \<and>
         (slat = - 90 \<and> tlat = - 90 \<longrightarrow>
            bearing (updateSingleTargetDerivedData t s ps maxAge now) = Some NaN)"
proof -
  have b: "bearing (calculateRangeAndBearing s t) =
          Some (if js_greater_eq (js_round (getRhumbLineBearing slat slon tlat tlon)) 360
                then Fin 0 else js_round (getRhumbLineBearing slat slon tlat tlon))"
    by (simp add: calculateRangeAndBearing_def Let_def assms(2-5))
  have one: "\<exists>k::int. bearing (updateSingleTargetDerivedData t s ps maxAge now)
                         = Some (Fin (of_int k)) \<and> 0 \<le> k \<and> k < 360"
    if n: "\<not> (slat = - 90 \<and> tlat = - 90)"
  proof -
    from getRhumbLineBearing_normalized [OF assms(6-9) n, of slon tlon]
    obtain v where v: "getRhumbLineBearing slat slon tlat tlon = Fin v" "0 \<le> v" "v < 360"
      by blast
    from fold360 [OF v(2,3)] show ?thesis
      unfolding usd_bearing [OF assms(1)] b v(1) by simp
  qed
  have two: "bearing (updateSingleTargetDerivedData t s ps maxAge now) = Some NaN"
    if "slat = - 90 \<and> tlat = - 90"
    unfolding usd_bearing [OF assms(1)] b using that
    by (simp add: getRhumbLineBearing_south_poles)
  show ?thesis using one two by blast
qed

text \<open>
  The bearing from the point 0 N 0 E to the north pole is 0 and to the south pole 180.
\<close>

lemma rhumb_equator: "js_tan (toRadians 0 / 2 + pi / 4) = 1"
proof -
  have "pi / 4 \<noteq> pi / 2" using pi_gt_zero by simp
  then show ?thesis by (simp add: toRadians_def js_tan_def tan_45)
qed

lemma rhumb_to_north_pole: "getRhumbLineBearing 0 0 90 0 = Fin 0"
proof -
  have eq: "toRadians 90 / 2 + pi / 4 = pi / 2" unfolding rhumb_arg_pole ..
  have n: "js_tan (toRadians 90 / 2 + pi / 4) = TAN_HALF_PI"
    by (simp only: js_tan_def eq refl if_True)
  have pos: "0 < TAN_HALF_PI" by (simp add: TAN_HALF_PI_def)
  have d: "js_div (Fin TAN_HALF_PI) (Fin 1) = Fin TAN_HALF_PI"
  proof -
    have "TAN_HALF_PI < 2 ^ 64" by (simp add: TAN_HALF_PI_def)
    also have "(2::real) ^ 64 \<le> 2 ^ 1024" by (rule power_increasing) simp_all
    finally have "TAN_HALF_PI < OVERFLOW" by (simp add: OVERFLOW_def)
    moreover have "0 < TAN_HALF_PI" by (simp add: TAN_HALF_PI_def)
    ultimately show ?thesis using OVERFLOW_pos by (simp add: fin_def)
  qed
  have l: "0 < ln TAN_HALF_PI" by (simp add: TAN_HALF_PI_def)
  have a: "atan2 0 (ln TAN_HALF_PI) = 0" using l by (simp add: atan2_def)
  show ?thesis
    unfolding getRhumbLineBearing_def Let_def n rhumb_equator d
    using l pos by (simp add: toRadians_def a toDegrees_def trunc_def)
qed

lemma rhumb_to_south_pole: "getRhumbLineBearing 0 0 (- 90) 0 = Fin 180"
proof -
  have z: "js_tan (toRadians (- 90) / 2 + pi / 4) = 0"
    using js_tan_lat(2) [of "- 90"] by simp
  have d: "js_div (Fin 0) (Fin 1) = Fin 0" using OVERFLOW_pos by (simp add: fin_def)
  have t: "trunc (3 / 2) = 1" by (simp add: trunc_def)
  show ?thesis
    unfolding getRhumbLineBearing_def Let_def z rhumb_equator d
    by (simp add: toRadians_def toDegrees_def t)
qed

theorem bearing_in_range_witness:
  "bearing (updateSingleTargetDerivedData northPoleTarget fixedSelf testProfiles 1800 0)
     = Some (Fin 0) \<and>
   bearing (updateSingleTargetDerivedData southPoleTarget fixedSelf testProfiles 1800 0)
     = Some (Fin 180) \<and>
   (\<exists>k::int. bearing (updateSingleTargetDerivedData northPoleTarget fixedSelf testProfiles 1800 0)
               = Some (Fin (of_int k)) \<and> 0 \<le> k \<and> k < 360) \<and>
   (\<exists>k::int. bearing (updateSingleTargetDerivedData southPoleTarget fixedSelf testProfiles 1800 0)
               = Some (Fin (of_int k)) \<and> 0 \<le> k \<and> k < 360)"
proof -
  have m: "mmsi northPoleTarget \<noteq> mmsi fixedSelf" "mmsi southPoleTarget \<noteq> mmsi fixedSelf"
    by (simp_all add: northPoleTarget_def southPoleTarget_def fixedSelf_def newTarget_def)
  have s: "latitude fixedSelf = Some 0" "longitude fixedSelf = Some 0"
    by (simp_all add: fixedSelf_def)
  have n: "latitude northPoleTarget = Some 90" "longitude northPoleTarget = Some 0"
    by (simp_all add: northPoleTarget_def)
  have p: "latitude southPoleTarget = Some (- 90)" "longitude southPoleTarget = Some 0"
    by (simp_all add: southPoleTarget_def)
  have bn: "bearing (updateSingleTargetDerivedData northPoleTarget fixedSelf testProfiles 1800 0)
              = Some (Fin 0)"
    unfolding usd_bearing [OF m(1)]
    by (simp add: calculateRangeAndBearing_def Let_def s n rhumb_to_north_pole)
  have bs: "bearing (updateSingleTargetDerivedData southPoleTarget fixedSelf testProfiles 1800 0)
              = Some (Fin 180)"
    unfolding usd_bearing [OF m(2)]
    by (simp add: calculateRangeAndBearing_def Let_def s p rhumb_to_south_pole)
  have en: "\<exists>k::int. bearing (updateSingleTargetDerivedData northPoleTarget fixedSelf
                                 testProfiles 1800 0) = Some (Fin (of_int k)) \<and> 0 \<le> k \<and> k < 360"
    using bearing_in_range [OF m(1) s n, of testProfiles 1800 0] by simp
  have es: "\<exists>k::int. bearing (updateSingleTargetDerivedData southPoleTarget fixedSelf
                                 testProfiles 1800 0) = Some (Fin (of_int k)) \<and> 0 \<le> k \<and> k < 360"
    using bearing_in_range [OF m(2) s p, of testProfiles 1800 0] by simp
  show ?thesis using bn bs en es by (intro conjI)
qed

lemma tan_past_pole: "tan (toRadians 91 / 2 + pi / 4) < 0"
proof -
  have e: "toRadians 91 / 2 + pi / 4 = - (179 * pi / 360) + pi"
    by (simp add: toRadians_def field_simps)
  have "- pi / 2 < - (179 * pi / 360)" using pi_gt_zero by simp
  moreover have "- (179 * pi / 360) < 0" using pi_gt_zero by simp
  ultimately have "tan (- (179 * pi / 360)) < 0" by (rule tan_less_zero)
  then show ?thesis unfolding e tan_periodic_pi .
qed


lemma rhumb_sentinel: "getRhumbLineBearing 0 0 91 0 = NaN"
proof -
  have ne: "toRadians 91 / 2 + pi / 4 \<noteq> pi / 2" unfolding rhumb_arg_pole by simp
  have t: "js_tan (toRadians 91 / 2 + pi / 4) = tan (toRadians 91 / 2 + pi / 4)"
    by (simp only: js_tan_def ne if_False)
  have n: "\<not> tan (toRadians 91 / 2 + pi / 4) \<ge> OVERFLOW"
    using tan_past_pole OVERFLOW_pos by linarith
  have "js_log (js_div (Fin (tan (toRadians 91 / 2 + pi / 4))) (Fin 1)) = NaN"
    using tan_past_pole n by (simp add: fin_def)
  then show ?thesis unfolding getRhumbLineBearing_def Let_def rhumb_equator t by simp
qed

text \<open>
  Claim C8 as stated fails: nothing checks the latitude. For a target at latitude 91
  (the value AIS transmits for an unavailable latitude) seen from 0 N 0 E the tangent in
  the rhumb-line formula is negative, the logarithm of the quotient is \<open>NaN\<close>, and \<open>NaN\<close>
  passes the arc tangent, the remainder, the rounding and the test
  \<^verbatim>\<open>target.bearing >= 360\<close>: the stored bearing is \<open>NaN\<close>, not an integer in \<open>[0, 360)\<close>.
\<close>

theorem bearing_nan_at_sentinel_latitude:
  "latitude fixedSelf = Some 0 \<and> longitude fixedSelf = Some 0 \<and>
   latitude sentinelTarget = Some 91 \<and> longitude sentinelTarget = Some 0 \<and>
   bearing (updateSingleTargetDerivedData sentinelTarget fixedSelf testProfiles 1800 0) = Some NaN"
proof -
  have m: "mmsi sentinelTarget \<noteq> mmsi fixedSelf"
    by (simp add: sentinelTarget_def fixedSelf_def newTarget_def)
  have "bearing (calculateRangeAndBearing fixedSelf sentinelTarget) = Some NaN"
    by (simp add: calculateRangeAndBearing_def Let_def sentinelTarget_def fixedSelf_def
          newTarget_def rhumb_sentinel)
  then show ?thesis unfolding usd_bearing [OF m]
    by (simp add: sentinelTarget_def fixedSelf_def newTarget_def)
qed

subsection \<open>The haversine argument\<close>

lemma convex_mix:
  fixes h C S :: real
  assumes "0 \<le> h" "h \<le> 1" "- 1 \<le> C" "C \<le> 1" "- 1 \<le> S" "S \<le> 1"
  shows "0 \<le> (1 - C) / 2 + (C + S) / 2 * h \<and> (1 - C) / 2 + (C + S) / 2 * h \<le> 1"
proof -
  define X where "X = (1 - C) / 2 + (C + S) / 2 * h"
  have p1: "0 \<le> (1 - h) * (1 - C)" using assms by (intro mult_nonneg_nonneg) simp_all
  have p2: "0 \<le> h * (1 + S)" using assms by (intro mult_nonneg_nonneg) simp_all
  have p3: "0 \<le> (1 - h) * (1 + C)" using assms by (intro mult_nonneg_nonneg) simp_all
  have p4: "0 \<le> h * (1 - S)" using assms by (intro mult_nonneg_nonneg) simp_all
  have e1: "(1 - h) * (1 - C) + h * (1 + S) = 2 * X"
    unfolding X_def by (simp add: field_simps)
  have e2: "(1 - h) * (1 + C) + h * (1 - S) = 2 - 2 * X"
    unfolding X_def by (simp add: field_simps)
  have "0 \<le> (1 - h) * (1 - C) + h * (1 + S)" using p1 p2 by (rule add_nonneg_nonneg)
  then have a1: "0 \<le> 2 * X" by (simp only: e1)
  have "0 \<le> (1 - h) * (1 + C) + h * (1 - S)" using p3 p4 by (rule add_nonneg_nonneg)
  then have a2: "0 \<le> 2 - 2 * X" by (simp only: e2)
  from a1 a2 have "0 \<le> X \<and> X \<le> 1" by simp
  then show ?thesis unfolding X_def .
qed

lemma haversine_arg_bounds:
  fixes lat1 lat2 dLon :: real
  defines "a \<equiv> sin ((lat2 - lat1) / 2) * sin ((lat2 - lat1) / 2) +
                cos lat1 * cos lat2 * sin (dLon / 2) * sin (dLon / 2)"
  shows "0 \<le> a \<and> a \<le> 1"
proof -
  let ?h = "sin (dLon / 2) * sin (dLon / 2)"
  let ?C = "cos (lat2 - lat1)"
  let ?S = "cos (lat1 + lat2)"
  have h0: "0 \<le> ?h" by simp
  have h1: "?h \<le> 1" using sin_squared_eq [of "dLon / 2"] zero_le_power2 [of "cos (dLon / 2)"]
    by (simp add: power2_eq_square)
  have "cos (2 * ((lat2 - lat1) / 2)) = 1 - 2 * (sin ((lat2 - lat1) / 2))\<^sup>2"
    by (rule cos_double_sin)
  moreover have "2 * ((lat2 - lat1) / 2) = lat2 - lat1" by simp
  ultimately have "?C = 1 - 2 * (sin ((lat2 - lat1) / 2))\<^sup>2" by (simp only:)
  then have s2: "sin ((lat2 - lat1) / 2) * sin ((lat2 - lat1) / 2) = (1 - ?C) / 2"
    by (simp add: power2_eq_square)
  have cc: "cos lat1 * cos lat2 = (?C + ?S) / 2"
    by (simp add: cos_add cos_diff)
  have "a = sin ((lat2 - lat1) / 2) * sin ((lat2 - lat1) / 2) + (cos lat1 * cos lat2) * ?h"
    unfolding a_def by (simp only: mult.assoc)
  then have a: "a = (1 - ?C) / 2 + (?C + ?S) / 2 * ?h"
    by (simp only: s2 cc)
  show ?thesis unfolding a
    by (rule convex_mix [OF h0 h1]) simp_all
qed

lemma haversine_in_domain:
  "0 \<le> sin (toRadians (lat2 - lat1) / 2) * sin (toRadians (lat2 - lat1) / 2) +
         cos (toRadians lat1) * cos (toRadians lat2) *
         sin (toRadians (lon2 - lon1) / 2) * sin (toRadians (lon2 - lon1) / 2) \<and>
   sin (toRadians (lat2 - lat1) / 2) * sin (toRadians (lat2 - lat1) / 2) +
         cos (toRadians lat1) * cos (toRadians lat2) *
         sin (toRadians (lon2 - lon1) / 2) * sin (toRadians (lon2 - lon1) / 2) \<le> 1"
proof -
  have "toRadians (lat2 - lat1) = toRadians lat2 - toRadians lat1"
    by (simp add: toRadians_def left_diff_distrib diff_divide_distrib)
  then show ?thesis
    using haversine_arg_bounds [of "toRadians lat2" "toRadians lat1" "toRadians (lon2 - lon1)"]
    by simp
qed

subsection \<open>No fix\<close>





subsection \<open>Deltas\<close>








end
